theory Spec2Isabelle
  imports Main "HOL-Library.Word" "HOL-Library.AList"
begin

section \<open>Go values\<close>

text \<open>
  Go's \<open>uint64\<close> is a 64-bit word: \<open>+\<close> and \<open>-\<close> wrap around, and \<open><\<close> compares the
  unsigned values. A byte slice is a list of 8-bit words. A Go \<open>error\<close> is observed
  through its message (\<open>err.Error()\<close>); a run-time panic (index out of range, nil
  dereference, division by zero) is a fault of its own that no caller in these files recovers.
  A function of Go type \<open>(T, error)\<close> becomes \<open>fault + T\<close>: every caller in the source
  reads the value only when the error is nil.
\<close>

type_synonym u64 = "64 word"
type_synonym byte = "8 word"
type_synonym bytes = "byte list"

datatype fault = Err string | Panic string

text \<open>\<open>fmt.Errorf(prefix + "%w", err)\<close>: the message of the wrapped error follows the prefix.
  A panic is not an error value and passes through unchanged.\<close>

fun Errorf :: "string \<Rightarrow> fault \<Rightarrow> fault" where
  "Errorf prefix (Err m) = Err (prefix @ m)"
| "Errorf prefix (Panic m) = Panic m"

section \<open>Deposit range scanner: the scanned range\<close>

definition eth1LookBack :: u64 where
  "eth1LookBack = 100"

definition eth1MaxFetch :: u64 where
  "eth1MaxFetch = 1000"

text \<open>
  Lines 76 to 97 of \<open>eth1DepositsExporter\<close>: the range \<open>(fromBlock, toBlock)\<close> of one
  iteration, from the highest persisted deposit block, the last fetched block, the first
  block of the deposit contract and the height of the chain head. Every assignment of the
  source is one binding, in the source's order.
\<close>

definition exporter_range :: "u64 \<Rightarrow> u64 \<Rightarrow> u64 \<Rightarrow> u64 \<Rightarrow> u64 \<times> u64" where
  "exporter_range lastDepositBlock lastFetchedBlock eth1DepositContractFirstBlock blockHeight =
    (let fromBlock = lastDepositBlock + 1;
         toBlock = blockHeight;
         fromBlock = (if fromBlock < eth1DepositContractFirstBlock
                      then eth1DepositContractFirstBlock else fromBlock);
         fromBlock = (if fromBlock < lastFetchedBlock + 1
                      then lastFetchedBlock + 1 else fromBlock);
         toBlock = (if toBlock - fromBlock > eth1MaxFetch then fromBlock + 1000 else toBlock);
         toBlock = (if toBlock > blockHeight then blockHeight else toBlock);
         fromBlock = (if toBlock - fromBlock < eth1LookBack \<and> toBlock > eth1LookBack
                      then toBlock - eth1LookBack else fromBlock)
     in (fromBlock, toBlock))"

section \<open>Deposits and the table \<open>eth1_deposits\<close>\<close>

text \<open>\<open>fmt.Sprintf("%x", b)\<close> on a byte slice: two lower-case hexadecimal digits per byte.\<close>

definition hexdigit :: "nat \<Rightarrow> char" where
  "hexdigit n = ''0123456789abcdef'' ! n"

definition hex_of_bytes :: "bytes \<Rightarrow> string" where
  "hex_of_bytes bs = concat (map (\<lambda>b. [hexdigit (unat b div 16), hexdigit (unat b mod 16)]) bs)"

text \<open>\<open>types.Eth1Deposit\<close>, with the fields that \<open>fetchEth1Deposits\<close> and
  \<open>saveEth1Deposits\<close> read and write (\<open>BlockTs\<close> is an \<open>int64\<close>).\<close>

record Eth1Deposit =
  TxHash :: bytes
  TxInput :: bytes
  TxIndex :: u64
  BlockNumber :: u64
  BlockTs :: "64 word"
  FromAddress :: bytes
  PublicKey :: bytes
  WithdrawalCredentials :: bytes
  Amount :: u64
  Signature :: bytes
  MerkletreeIndex :: bytes
  Removed :: bool
  ValidSignature :: bool

text \<open>A row of the table, one field per column of the INSERT statement. The column
  \<open>block_ts\<close> holds \<open>TO_TIMESTAMP($5)\<close>.\<close>

datatype timestamp = TO_TIMESTAMP "64 word"

record eth1_deposits_row =
  tx_hash :: bytes
  tx_input :: bytes
  tx_index :: u64
  block_number :: u64
  block_ts :: timestamp
  from_address :: bytes
  publickey :: bytes
  withdrawal_credentials :: bytes
  amount :: u64
  signature :: bytes
  merkletree_index :: bytes
  removed :: bool
  valid_signature :: bool

text \<open>The table: at most one row for each value of the conflict target
  \<open>(tx_hash, merkletree_index)\<close>, which the statement's ON CONFLICT clause names.\<close>

type_synonym eth1_deposits = "(bytes \<times> bytes) \<rightharpoonup> eth1_deposits_row"

text \<open>The row proposed for insertion: \<open>VALUES ($1, ..., $13)\<close> with the arguments of
  \<open>insertDepositStmt.Exec\<close> at line 312.\<close>

definition VALUES :: "Eth1Deposit \<Rightarrow> eth1_deposits_row" where
  "VALUES d =
    \<lparr> tx_hash = TxHash d,
      tx_input = TxInput d,
      tx_index = TxIndex d,
      block_number = BlockNumber d,
      block_ts = TO_TIMESTAMP (BlockTs d),
      from_address = FromAddress d,
      publickey = PublicKey d,
      withdrawal_credentials = WithdrawalCredentials d,
      amount = Amount d,
      signature = Signature d,
      merkletree_index = MerkletreeIndex d,
      removed = Removed d,
      valid_signature = ValidSignature d \<rparr>"

text \<open>The statement prepared at lines 276 to 305: insert the row, or on a conflict on
  \<open>(tx_hash, merkletree_index)\<close> set the twelve listed columns of the existing row to the
  values of the proposed row.\<close>

definition DO_UPDATE_SET :: "eth1_deposits_row \<Rightarrow> eth1_deposits_row \<Rightarrow> eth1_deposits_row" where
  "DO_UPDATE_SET EXCLUDED row =
    row \<lparr> tx_input := tx_input EXCLUDED,
          tx_index := tx_index EXCLUDED,
          block_number := block_number EXCLUDED,
          block_ts := block_ts EXCLUDED,
          from_address := from_address EXCLUDED,
          publickey := publickey EXCLUDED,
          withdrawal_credentials := withdrawal_credentials EXCLUDED,
          amount := amount EXCLUDED,
          signature := signature EXCLUDED,
          merkletree_index := merkletree_index EXCLUDED,
          removed := removed EXCLUDED,
          valid_signature := valid_signature EXCLUDED \<rparr>"

definition insertDepositStmt :: "Eth1Deposit \<Rightarrow> eth1_deposits \<Rightarrow> eth1_deposits" where
  "insertDepositStmt d t =
    (let EXCLUDED = VALUES d;
         k = (tx_hash EXCLUDED, merkletree_index EXCLUDED)
     in case t k of
          None \<Rightarrow> t(k \<mapsto> EXCLUDED)
        | Some row \<Rightarrow> t(k \<mapsto> DO_UPDATE_SET EXCLUDED row))"

text \<open>The columns that the DO UPDATE SET clause assigns.\<close>

definition updated_columns ::
  "eth1_deposits_row \<Rightarrow> bytes \<times> u64 \<times> u64 \<times> timestamp \<times> bytes \<times> bytes \<times> bytes \<times> u64 \<times> bytes \<times> bytes \<times> bool \<times> bool" where
  "updated_columns r =
    (tx_input r, tx_index r, block_number r, block_ts r, from_address r, publickey r,
     withdrawal_credentials r, amount r, signature r, merkletree_index r, removed r,
     valid_signature r)"

section \<open>Deposit persistence: \<open>saveEth1Deposits\<close>\<close>

text \<open>
  The writer connection: the committed table, and the working copy of the open
  transaction if there is one. What the database answers to each call is the
  environment's: \<open>Begin\<close>, \<open>Prepare\<close>, each \<open>Exec\<close> (which may depend on the working copy
  and the row) and \<open>Commit\<close> can fail.
\<close>

record WriterDb =
  committed :: eth1_deposits
  tx :: "eth1_deposits option"

record WriterDb_env =
  Begin_err :: "fault option"
  Prepare_err :: "fault option"
  Exec_err :: "eth1_deposits \<Rightarrow> Eth1Deposit \<Rightarrow> fault option"
  Commit_err :: "fault option"

definition Begin :: "WriterDb_env \<Rightarrow> WriterDb \<Rightarrow> fault option \<times> WriterDb" where
  "Begin env db =
    (case Begin_err env of
       Some e \<Rightarrow> (Some e, db)
     | None \<Rightarrow> (None, db \<lparr> tx := Some (committed db) \<rparr>))"

definition Prepare :: "WriterDb_env \<Rightarrow> WriterDb \<Rightarrow> fault option \<times> WriterDb" where
  "Prepare env db = (Prepare_err env, db)"

text \<open>A statement runs on the working copy of the open transaction; a failed statement
  or a statement without a transaction changes nothing.\<close>

definition Exec :: "WriterDb_env \<Rightarrow> Eth1Deposit \<Rightarrow> WriterDb \<Rightarrow> fault option \<times> WriterDb" where
  "Exec env d db =
    (case tx db of
       None \<Rightarrow> (Some (Err ''sql: transaction has already been committed or rolled back''), db)
     | Some t \<Rightarrow>
        (case Exec_err env t d of
           Some e \<Rightarrow> (Some e, db)
         | None \<Rightarrow> (None, db \<lparr> tx := Some (insertDepositStmt d t) \<rparr>)))"

definition Commit :: "WriterDb_env \<Rightarrow> WriterDb \<Rightarrow> fault option \<times> WriterDb" where
  "Commit env db =
    (case tx db of
       None \<Rightarrow> (Some (Err ''sql: transaction has already been committed or rolled back''), db)
     | Some t \<Rightarrow>
        (case Commit_err env of
           Some e \<Rightarrow> (Some e, db)
         | None \<Rightarrow> (None, db \<lparr> committed := t, tx := None \<rparr>)))"

text \<open>\<open>tx.Rollback()\<close> discards the working copy; after a commit there is none.\<close>

definition Rollback :: "WriterDb \<Rightarrow> WriterDb" where
  "Rollback db = db \<lparr> tx := None \<rparr>"

text \<open>The loop of lines 311 to 316: stop at the first failing insert.\<close>

fun exec_deposits :: "WriterDb_env \<Rightarrow> Eth1Deposit list \<Rightarrow> WriterDb \<Rightarrow> fault option \<times> WriterDb" where
  "exec_deposits env [] db = (None, db)"
| "exec_deposits env (d # ds) db =
    (case Exec env d db of
       (Some e, db') \<Rightarrow>
         (Some (Errorf (''error saving eth1-deposit to db: '' @ hex_of_bytes (TxHash d) @ '': '') e), db')
     | (None, db') \<Rightarrow> exec_deposits env ds db')"

text \<open>\<open>saveEth1Deposits\<close>, lines 269 to 324. The deferred \<open>tx.Rollback()\<close> runs at every
  return after a successful \<open>Begin\<close>.\<close>

definition saveEth1Deposits ::
  "WriterDb_env \<Rightarrow> Eth1Deposit list \<Rightarrow> WriterDb \<Rightarrow> fault option \<times> WriterDb" where
  "saveEth1Deposits env depositsToSave db =
    (case Begin env db of
       (Some e, db1) \<Rightarrow> (Some e, db1)
     | (None, db1) \<Rightarrow>
        (case Prepare env db1 of
           (Some e, db2) \<Rightarrow> (Some e, Rollback db2)
         | (None, db2) \<Rightarrow>
            (case exec_deposits env depositsToSave db2 of
               (Some e, db3) \<Rightarrow> (Some e, Rollback db3)
             | (None, db3) \<Rightarrow>
                (case Commit env db3 of
                   (Some e, db4) \<Rightarrow>
                     (Some (Errorf ''error commiting db-tx for eth1-deposits: '' e), Rollback db4)
                 | (None, db4) \<Rightarrow> (None, Rollback db4)))))"

section \<open>Batched enrichment fetcher: \<open>eth1BatchRequestHeadersAndTxs\<close>\<close>

text \<open>
  What the code reads of \<open>gethTypes.Header\<close> is its \<open>Time\<close>. A \<open>gethTypes.Transaction\<close> is
  either the zero value \<open>&gethTypes.Transaction{}\<close>, whose accessors dereference a nil
  inner transaction, or a decoded transaction with its input data, its chain id (which
  may be nil) and the rest of its content.
\<close>

datatype Header = Header (Time: u64)

datatype Transaction = ZeroTransaction | Transaction bytes "int option" bytes

text \<open>
  An element of the batch, as \<open>gethRPC.BatchElem\<close>: \<open>Result\<close> is the cell that the
  element's pointer refers to, \<open>Error\<close> the element's own error field. The block number
  argument stands for \<open>hexutil.EncodeBig(big.NewInt(int64(b)))\<close>.
\<close>

datatype arg = BlockNumberArg int | BoolArg bool | StringArg string

datatype result = HeaderResult Header | TransactionResult Transaction

record BatchElem =
  Method :: string
  Args :: "arg list"
  Result :: result
  Error :: "fault option"

text \<open>
  Reading a map of pointers after the call: the maps \<open>headers\<close> and \<open>txs\<close> hold, for each
  key, the position of the batch element whose \<open>Result\<close> cell the stored pointer shares.
\<close>

definition deref_header :: "BatchElem list \<Rightarrow> nat \<Rightarrow> Header" where
  "deref_header cells p =
    (if p < length cells
     then (case Result (cells ! p) of HeaderResult h \<Rightarrow> h | TransactionResult _ \<Rightarrow> Header 0)
     else Header 0)"

definition deref_tx :: "BatchElem list \<Rightarrow> nat \<Rightarrow> Transaction" where
  "deref_tx cells p =
    (if p < length cells
     then (case Result (cells ! p) of TransactionResult t \<Rightarrow> t | HeaderResult _ \<Rightarrow> ZeroTransaction)
     else ZeroTransaction)"

text \<open>The two loops of lines 335 to 359. Each appends the element, stores the pointer in
  the map, and appends the value of the local \<open>err\<close>, which is nil, to \<open>errors\<close>.\<close>

definition add_block ::
  "BatchElem list \<times> (u64 \<rightharpoonup> nat) \<times> fault option list \<Rightarrow> u64
    \<Rightarrow> BatchElem list \<times> (u64 \<rightharpoonup> nat) \<times> fault option list" where
  "add_block st b =
    (case st of (elems, headers, errors) \<Rightarrow>
      (let header = length elems;
           err = None
       in (elems @ [\<lparr> Method = ''eth_getBlockByNumber'',
                      Args = [BlockNumberArg (sint b), BoolArg False],
                      Result = HeaderResult (Header 0),
                      Error = err \<rparr>],
           headers(b \<mapsto> header),
           errors @ [err])))"

definition add_tx ::
  "BatchElem list \<times> (string \<rightharpoonup> nat) \<times> fault option list \<Rightarrow> string
    \<Rightarrow> BatchElem list \<times> (string \<rightharpoonup> nat) \<times> fault option list" where
  "add_tx st txHashHex =
    (case st of (elems, txs, errors) \<Rightarrow>
      (let tx = length elems;
           err = None
       in (elems @ [\<lparr> Method = ''eth_getTransactionByHash'',
                      Args = [StringArg txHashHex],
                      Result = TransactionResult ZeroTransaction,
                      Error = err \<rparr>],
           txs(txHashHex \<mapsto> tx),
           errors @ [err])))"

text \<open>
  \<open>eth1BatchRequestHeadersAndTxs\<close>, lines 329 to 377. \<open>BatchCall\<close> is the transport: it
  answers with its own error or with the elements after the call, their \<open>Result\<close> cells
  and \<open>Error\<close> fields filled in. The loop at lines 370 to 374 ranges over \<open>errors\<close>.
\<close>

definition eth1BatchRequestHeadersAndTxs ::
  "(BatchElem list \<Rightarrow> fault option \<times> BatchElem list) \<Rightarrow> u64 list \<Rightarrow> string list
    \<Rightarrow> fault + (u64 \<rightharpoonup> Header) \<times> (string \<rightharpoonup> Transaction)" where
  "eth1BatchRequestHeadersAndTxs BatchCall blocksToFetch txsToFetch =
    (case foldl add_block ([], Map.empty, []) blocksToFetch of (elems, headers, errors) \<Rightarrow>
     case foldl add_tx (elems, Map.empty, errors) txsToFetch of (elems, txs, errors) \<Rightarrow>
       if length elems = 0
       then Inr (map_option (deref_header elems) \<circ> headers, map_option (deref_tx elems) \<circ> txs)
       else (case BatchCall elems of
               (Some ioErr, _) \<Rightarrow> Inl ioErr
             | (None, elems') \<Rightarrow>
                (case find (\<lambda>e. e \<noteq> None) errors of
                   Some (Some e) \<Rightarrow> Inl e
                 | _ \<Rightarrow> Inr (map_option (deref_header elems') \<circ> headers,
                            map_option (deref_tx elems') \<circ> txs))))"

section \<open>Deposit log decoder and verifier: \<open>fetchEth1Deposits\<close>\<close>

text \<open>A log of the execution client (\<open>gethTypes.Log\<close>), with the fields the code reads.\<close>

record Log =
  log_Topics :: "bytes list"
  log_Data :: bytes
  log_BlockNumber :: u64
  log_TxHash :: bytes
  log_TxIndex :: u64
  log_Removed :: bool

text \<open>
  Everything \<open>fetchEth1Deposits\<close> takes from outside this file: the execution client
  (\<open>FilterLogs\<close> with the contract address, \<open>BatchCall\<close>), the configuration, and the
  library functions for hex decoding, the signing domain, the log payload, the BLS
  check, little-endian decoding and sender recovery (\<open>gethTypes.NewLondonSigner(chainID)\<close>
  followed by \<open>Sender\<close>).
\<close>

record eth1_env =
  FilterLogs :: "u64 \<Rightarrow> u64 \<Rightarrow> fault + Log list"
  BatchCall :: "BatchElem list \<Rightarrow> fault option \<times> BatchElem list"
  GenesisForkVersion :: string
  ConfigName :: string
  DomainDeposit :: bytes
  ZeroHash :: bytes
  eth1DepositEventSignature :: bytes
  DecodeString :: "string \<Rightarrow> fault + bytes"
  ComputeDomain :: "bytes \<Rightarrow> bytes \<Rightarrow> bytes \<Rightarrow> fault + bytes"
  UnpackDepositLogData :: "bytes \<Rightarrow> fault + bytes \<times> bytes \<times> bytes \<times> bytes \<times> bytes"
  VerifyDepositSignature :: "bytes \<times> bytes \<times> u64 \<times> bytes \<Rightarrow> bytes \<Rightarrow> fault option"
  FromBytes8 :: "bytes \<Rightarrow> u64"
  Sender :: "int \<Rightarrow> Transaction \<Rightarrow> fault + bytes"

text \<open>\<open>strings.Replace(s, "0x", "", -1)\<close>: every occurrence, from the left.\<close>

fun Replace_0x :: "string \<Rightarrow> string" where
  "Replace_0x (a # b # s) =
    (if a = CHR ''0'' \<and> b = CHR ''x'' then Replace_0x s else a # Replace_0x (b # s))"
| "Replace_0x s = s"

text \<open>Decimal digits of a number, for \<open>%v\<close> and \<open>%d\<close>.\<close>

fun dec_nat :: "nat \<Rightarrow> string" where
  "dec_nat n =
    (if n < 10 then [''0123456789'' ! n] else dec_nat (n div 10) @ [''0123456789'' ! (n mod 10)])"

declare dec_nat.simps [simp del]

definition dec_int :: "int \<Rightarrow> string" where
  "dec_int i = (if i < 0 then CHR ''-'' # dec_nat (nat (- i)) else dec_nat (nat i))"

text \<open>The signing domain, lines 161 to 202: the domain of the configured genesis fork
  version, replaced for four named networks; the last error decides.\<close>

definition deposit_domain :: "eth1_env \<Rightarrow> fault + bytes" where
  "deposit_domain env =
    (case DecodeString env (Replace_0x (GenesisForkVersion env)) of
       Inl e \<Rightarrow> Inl e
     | Inr genForkVersion \<Rightarrow>
        (let domain = ComputeDomain env (DomainDeposit env) genForkVersion (ZeroHash env);
             domain = (if ConfigName env = ''zinken''
                       then ComputeDomain env (DomainDeposit env) [0x00, 0x00, 0x00, 0x03] (ZeroHash env)
                       else domain);
             domain = (if ConfigName env = ''toledo''
                       then ComputeDomain env (DomainDeposit env) [0x00, 0x70, 0x1E, 0xD0] (ZeroHash env)
                       else domain);
             domain = (if ConfigName env = ''pyrmont''
                       then ComputeDomain env (DomainDeposit env) [0x00, 0x00, 0x20, 0x09] (ZeroHash env)
                       else domain);
             domain = (if ConfigName env = ''prater''
                       then ComputeDomain env (DomainDeposit env) [0x00, 0x00, 0x10, 0x20] (ZeroHash env)
                       else domain)
         in domain))"

text \<open>The deposit built from one log at lines 221 to 232; the fields that the literal
  leaves out have their zero values.\<close>

definition new_deposit ::
  "eth1_env \<Rightarrow> Log \<Rightarrow> bytes \<times> bytes \<times> bytes \<times> bytes \<times> bytes \<Rightarrow> bool \<Rightarrow> Eth1Deposit" where
  "new_deposit env depositLog unpacked validSignature =
    (case unpacked of (pubkey, withdrawalCredentials, amount', signature', merkletreeIndex) \<Rightarrow>
      \<lparr> TxHash = log_TxHash depositLog,
        TxInput = [],
        TxIndex = log_TxIndex depositLog,
        BlockNumber = log_BlockNumber depositLog,
        BlockTs = 0,
        FromAddress = [],
        PublicKey = pubkey,
        WithdrawalCredentials = withdrawalCredentials,
        Amount = FromBytes8 env amount',
        Signature = signature',
        MerkletreeIndex = merkletreeIndex,
        Removed = log_Removed depositLog,
        ValidSignature = validSignature \<rparr>)"

text \<open>The loop over the logs, lines 204 to 233. \<open>Topics[0]\<close> of a log without topics is
  an index out of range.\<close>

fun decode_logs ::
  "eth1_env \<Rightarrow> bytes \<Rightarrow> Log list \<Rightarrow> u64 list \<times> string list \<times> Eth1Deposit list
    \<Rightarrow> fault + u64 list \<times> string list \<times> Eth1Deposit list" where
  "decode_logs env domain [] acc = Inr acc"
| "decode_logs env domain (depositLog # logs) acc =
    (case acc of (blocksToFetch, txsToFetch, depositsToSave) \<Rightarrow>
      (case log_Topics depositLog of
         [] \<Rightarrow> Inl (Panic ''runtime error: index out of range [0] with length 0'')
       | topic0 # _ \<Rightarrow>
          if topic0 \<noteq> eth1DepositEventSignature env then decode_logs env domain logs acc
          else
            (case UnpackDepositLogData env (log_Data depositLog) of
               Inl e \<Rightarrow>
                 Inl (Errorf (''error unpacking eth1-deposit-log: ''
                        @ hex_of_bytes (log_Data depositLog) @ '': '') e)
             | Inr unpacked \<Rightarrow>
                (case unpacked of (pubkey, withdrawalCredentials, amount', signature', merkletreeIndex) \<Rightarrow>
                  (let err = VerifyDepositSignature env
                               (pubkey, withdrawalCredentials, FromBytes8 env amount', signature') domain;
                       validSignature = (err = None)
                   in decode_logs env domain logs
                        (blocksToFetch @ [log_BlockNumber depositLog],
                         txsToFetch @ [''0x'' @ hex_of_bytes (log_TxHash depositLog)],
                         depositsToSave @ [new_deposit env depositLog unpacked validSignature]))))))"

text \<open>The enrichment of one deposit, lines 241 to 263, and the loop over the deposits.\<close>

definition enrich_deposit ::
  "eth1_env \<Rightarrow> (u64 \<rightharpoonup> Header) \<Rightarrow> (string \<rightharpoonup> Transaction) \<Rightarrow> Eth1Deposit \<Rightarrow> fault + Eth1Deposit" where
  "enrich_deposit env headers txs d =
    (case headers (BlockNumber d) of
       None \<Rightarrow> Inl (Err ''error getting block for eth1-deposit: block does not exist in fetched map'')
     | Some b \<Rightarrow>
        (let d = d \<lparr> BlockTs := Time b \<rparr> in
         case txs (''0x'' @ hex_of_bytes (TxHash d)) of
           None \<Rightarrow> Inl (Err ''error getting tx for eth1-deposit: tx does not exist in fetched map'')
         | Some t \<Rightarrow>
            (case t of
               ZeroTransaction \<Rightarrow>
                 Inl (Panic ''runtime error: invalid memory address or nil pointer dereference'')
             | Transaction data chainId rest \<Rightarrow>
                (let d = d \<lparr> TxInput := data \<rparr> in
                 case chainId of
                   None \<Rightarrow> Inl (Err ''error getting tx-chainId for eth1-deposit'')
                 | Some chainID \<Rightarrow>
                    (case Sender env chainID t of
                       Inl e \<Rightarrow>
                         Inl (Errorf (''error getting sender for eth1-deposit (txHash: ''
                                @ hex_of_bytes (TxHash d) @ '', chainID: '' @ dec_int chainID @ ''): '') e)
                     | Inr sender \<Rightarrow> Inr (d \<lparr> FromAddress := sender \<rparr>))))))"

fun enrich_deposits ::
  "eth1_env \<Rightarrow> (u64 \<rightharpoonup> Header) \<Rightarrow> (string \<rightharpoonup> Transaction) \<Rightarrow> Eth1Deposit list
    \<Rightarrow> fault + Eth1Deposit list" where
  "enrich_deposits env headers txs [] = Inr []"
| "enrich_deposits env headers txs (d # ds) =
    (case enrich_deposit env headers txs d of
       Inl e \<Rightarrow> Inl e
     | Inr d' \<Rightarrow>
        (case enrich_deposits env headers txs ds of
           Inl e \<Rightarrow> Inl e
         | Inr ds' \<Rightarrow> Inr (d' # ds')))"

text \<open>\<open>fetchEth1Deposits\<close>, lines 144 to 267.\<close>

definition fetchEth1Deposits :: "eth1_env \<Rightarrow> u64 \<Rightarrow> u64 \<Rightarrow> fault + Eth1Deposit list" where
  "fetchEth1Deposits env fromBlock toBlock =
    (case FilterLogs env fromBlock toBlock of
       Inl e \<Rightarrow> Inl (Errorf ''error getting logs from eth1-client: '' e)
     | Inr depositLogs \<Rightarrow>
        (case deposit_domain env of
           Inl e \<Rightarrow> Inl e
         | Inr domain \<Rightarrow>
            (case decode_logs env domain depositLogs ([], [], []) of
               Inl e \<Rightarrow> Inl e
             | Inr (blocksToFetch, txsToFetch, depositsToSave) \<Rightarrow>
                (case eth1BatchRequestHeadersAndTxs (BatchCall env) blocksToFetch txsToFetch of
                   Inl e \<Rightarrow> Inl (Errorf ''error getting eth1-blocks: '' e)
                 | Inr (headers, txs) \<Rightarrow> enrich_deposits env headers txs depositsToSave))))"

section \<open>Deposit range scanner: one iteration of \<open>eth1DepositsExporter\<close>\<close>

text \<open>
  The two patterns of lines 37 and 38, with \<open>MatchString\<close>: the pattern may match anywhere
  in the message. After the fixed text \<open>[0-9]+\<close> takes the longest run of digits, since
  the character after it has to be a space.
\<close>

definition has_prefix :: "string \<Rightarrow> string \<Rightarrow> bool" where
  "has_prefix p s = (take (length p) s = p)"

fun tails :: "string \<Rightarrow> string list" where
  "tails [] = [[]]"
| "tails (c # s) = (c # s) # tails s"

definition is_digit :: "char \<Rightarrow> bool" where
  "is_digit c = (c \<in> set ''0123456789'')"

definition infura_match_here :: "string \<Rightarrow> bool" where
  "infura_match_here s =
    (has_prefix ''query returned more than '' s \<and>
     (let r = drop (length ''query returned more than '') s;
          ds = takeWhile is_digit r
      in ds \<noteq> [] \<and> has_prefix '' results'' (drop (length ds) r)))"

definition infuraToMuchResultsErrorRE :: "string \<Rightarrow> bool" where
  "infuraToMuchResultsErrorRE s = list_ex infura_match_here (tails s)"

definition gethRequestEntityTooLargeRE :: "string \<Rightarrow> bool" where
  "gethRequestEntityTooLargeRE s = list_ex (has_prefix ''413 Request Entity Too Large'') (tails s)"

text \<open>
  What one iteration does to the outside, in order: the calls of \<open>fetchEth1Deposits\<close>
  with their ranges, the call of \<open>saveEth1Deposits\<close>, the sleep that ends the iteration
  (in seconds), or the panic that ends the process.
\<close>

datatype event =
    Fetch u64 u64
  | Save "Eth1Deposit list"
  | Sleep nat
  | Crash string

text \<open>
  The outside of one iteration: the answer of the query for the highest persisted block
  number, the height of the head, the execution client and libraries at the first fetch
  and at the second, and the database's answers during the save.
\<close>

record exporter_env =
  db_Get :: "fault + u64"
  HeaderByNumber :: "fault + u64"
  eth1DepositContractFirstBlock :: u64
  first_fetch :: eth1_env
  second_fetch :: eth1_env
  save_env :: WriterDb_env

text \<open>Lines 116 to 140: save, advance \<open>lastFetchedBlock\<close>, sleep.\<close>

definition exporter_save ::
  "exporter_env \<Rightarrow> u64 \<Rightarrow> WriterDb \<Rightarrow> u64 \<Rightarrow> u64 \<Rightarrow> Eth1Deposit list \<Rightarrow> event list
    \<Rightarrow> u64 \<times> WriterDb \<times> event list" where
  "exporter_save env lastFetchedBlock db blockHeight toBlock depositsToSave trace =
    (case saveEth1Deposits (save_env env) depositsToSave db of
       (Some e, db') \<Rightarrow> (lastFetchedBlock, db', trace @ [Save depositsToSave, Sleep 5])
     | (None, db') \<Rightarrow>
         (toBlock, db',
          trace @ [Save depositsToSave, Sleep (if blockHeight \<noteq> toBlock then 5 else 60)]))"

text \<open>The body of the loop, lines 59 to 141: from the value of \<open>lastFetchedBlock\<close> and
  the database to their values at the end of the iteration, with the trace of events.\<close>

definition exporter_iteration ::
  "exporter_env \<Rightarrow> u64 \<Rightarrow> WriterDb \<Rightarrow> u64 \<times> WriterDb \<times> event list" where
  "exporter_iteration env lastFetchedBlock db =
    (case db_Get env of
       Inl e \<Rightarrow> (lastFetchedBlock, db, [Sleep 5])
     | Inr lastDepositBlock \<Rightarrow>
    (case HeaderByNumber env of
       Inl e \<Rightarrow> (lastFetchedBlock, db, [Sleep 5])
     | Inr blockHeight \<Rightarrow>
    (case exporter_range lastDepositBlock lastFetchedBlock
            (eth1DepositContractFirstBlock env) blockHeight of
       (fromBlock, toBlock) \<Rightarrow>
    (case fetchEth1Deposits (first_fetch env) fromBlock toBlock of
       Inr depositsToSave \<Rightarrow>
         exporter_save env lastFetchedBlock db blockHeight toBlock depositsToSave
           [Fetch fromBlock toBlock]
     | Inl (Panic m) \<Rightarrow> (lastFetchedBlock, db, [Fetch fromBlock toBlock, Crash m])
     | Inl (Err m) \<Rightarrow>
         if infuraToMuchResultsErrorRE m \<or> gethRequestEntityTooLargeRE m
         then
           (let trace = [Fetch fromBlock toBlock];
                toBlock = fromBlock + 100;
                toBlock = (if toBlock > blockHeight then blockHeight else toBlock);
                trace = trace @ [Fetch fromBlock toBlock]
            in case fetchEth1Deposits (second_fetch env) fromBlock toBlock of
                 Inr depositsToSave \<Rightarrow>
                   exporter_save env lastFetchedBlock db blockHeight toBlock depositsToSave trace
               | Inl (Panic m') \<Rightarrow> (lastFetchedBlock, db, trace @ [Crash m'])
               | Inl (Err m') \<Rightarrow> (lastFetchedBlock, db, trace @ [Sleep 5]))
         else (lastFetchedBlock, db, [Fetch fromBlock toBlock, Sleep 5])))))"

section \<open>Epoch assignment cache: \<open>GetEpochAssignments\<close>\<close>

text \<open>
  Modelled from the spec: \<open>utils.FormatAttestorAssignmentKey\<close> is not among the sources;
  the spec calls its result a composite key (attester-slot, committee-index,
  member-index). The key is kept as the application of the function to its three
  arguments.
\<close>

datatype AttestorAssignmentKey = FormatAttestorAssignmentKey u64 u64 u64

text \<open>
  \<open>types.EpochAssignments\<close>. A Go map is a list of pairs with distinct keys:
  \<open>m[k] = v\<close> is \<open>AList.update k v m\<close>, \<open>len(m)\<close> is the length, a lookup is \<open>map_of m k\<close>.
\<close>

record EpochAssignments =
  ProposerAssignments :: "(u64 \<times> u64) list"
  AttestorAssignments :: "(AttestorAssignmentKey \<times> u64) list"

text \<open>What the code reads of \<open>ethpb.ValidatorAssignments_CommitteeAssignment\<close> and of a
  page \<open>ethpb.ValidatorAssignments\<close> (\<open>TotalSize\<close> is an \<open>int32\<close>).\<close>

datatype CommitteeAssignment =
  CommitteeAssignment
    (BeaconCommittees: "u64 list")
    (CommitteeIndex: u64)
    (AttesterSlot: u64)
    (ProposerSlots: "u64 list")
    (ValidatorIndex: u64)

datatype ValidatorAssignments =
  ValidatorAssignments
    (Assignments: "CommitteeAssignment list")
    (NextPageToken: string)
    (TotalSize: "32 word")

text \<open>
  The cache \<open>lru.New(10)\<close> of the library golang-lru, most recently used entry first:
  \<open>Get\<close> moves the entry it finds to the front, \<open>Add\<close> puts the entry at the front and
  drops the oldest entries beyond the tenth.
\<close>

type_synonym lru_Cache = "(u64 \<times> EpochAssignments) list"

definition lru_Get :: "u64 \<Rightarrow> lru_Cache \<Rightarrow> EpochAssignments option \<times> lru_Cache" where
  "lru_Get key c =
    (case map_of c key of
       None \<Rightarrow> (None, c)
     | Some v \<Rightarrow> (Some v, (key, v) # filter (\<lambda>e. fst e \<noteq> key) c))"

definition lru_Add :: "u64 \<Rightarrow> EpochAssignments \<Rightarrow> lru_Cache \<Rightarrow> lru_Cache" where
  "lru_Add key v c = take 10 ((key, v) # filter (\<lambda>e. fst e \<noteq> key) c)"

text \<open>
  The client: the answers that the beacon node will give to the calls of
  \<open>ListValidatorAssignments\<close>, in the order of the calls, and the assignments cache. A call
  made when no answer is left does not return.
\<close>

record PrysmClient =
  client :: "(fault + ValidatorAssignments) list"
  assignmentsCache :: lru_Cache

text \<open>The page loop of lines 201 to 214, from the answers still to come and the
  assignments accumulated so far: the error or all the assignments, with the answers left
  over; \<open>None\<close> when the answers run out before the loop ends.\<close>

fun list_assignments ::
  "(fault + ValidatorAssignments) list \<Rightarrow> CommitteeAssignment list
    \<Rightarrow> ((fault + CommitteeAssignment list) \<times> (fault + ValidatorAssignments) list) option" where
  "list_assignments [] validatorAssignmentes = None"
| "list_assignments (answer # answers) validatorAssignmentes =
    (case answer of
       Inl err \<Rightarrow>
         Some (Inl (Errorf ''error retrieving validator assignment response for caching: '' err),
               answers)
     | Inr validatorAssignmentResponse \<Rightarrow>
        (let validatorAssignmentes =
               validatorAssignmentes @ Assignments validatorAssignmentResponse
         in if NextPageToken validatorAssignmentResponse = []
               \<or> TotalSize validatorAssignmentResponse = 0
               \<or> int (length validatorAssignmentes) = sint (TotalSize validatorAssignmentResponse)
            then Some (Inr validatorAssignmentes, answers)
            else list_assignments answers validatorAssignmentes))"

text \<open>The body of the loop of lines 219 to 227 for one assignment.\<close>

definition add_assignment :: "EpochAssignments \<Rightarrow> CommitteeAssignment \<Rightarrow> EpochAssignments" where
  "add_assignment assignments assignment =
    (let assignments =
           foldl (\<lambda>a slot.
                    a \<lparr> ProposerAssignments :=
                          AList.update slot (ValidatorIndex assignment) (ProposerAssignments a) \<rparr>)
                 assignments (ProposerSlots assignment)
     in foldl (\<lambda>a (memberIndex, validatorIndex).
                 a \<lparr> AttestorAssignments :=
                       AList.update
                         (FormatAttestorAssignmentKey (AttesterSlot assignment)
                            (CommitteeIndex assignment) (of_nat memberIndex))
                         validatorIndex (AttestorAssignments a) \<rparr>)
              assignments (enumerate 0 (BeaconCommittees assignment)))"

text \<open>\<open>GetEpochAssignments\<close>, lines 175 to 235: the returned pair of Go becomes the
  sum, next to the client after the call. The mutex held during the whole call has no
  effect on a single caller.\<close>

definition GetEpochAssignments ::
  "PrysmClient \<Rightarrow> u64 \<Rightarrow> ((fault + EpochAssignments) \<times> PrysmClient) option" where
  "GetEpochAssignments pc epoch =
    (case lru_Get epoch (assignmentsCache pc) of
       (Some cachedValue, c) \<Rightarrow> Some (Inr cachedValue, pc \<lparr> assignmentsCache := c \<rparr>)
     | (None, c) \<Rightarrow>
        (case list_assignments (client pc) [] of
           None \<Rightarrow> None
         | Some (Inl err, answers) \<Rightarrow> Some (Inl err, pc \<lparr> client := answers \<rparr>)
         | Some (Inr validatorAssignmentes, answers) \<Rightarrow>
            (let assignments =
                   foldl add_assignment
                     \<lparr> ProposerAssignments = [], AttestorAssignments = [] \<rparr> validatorAssignmentes;
                 c = (if length (AttestorAssignments assignments) > 0
                         \<and> length (ProposerAssignments assignments) > 0
                      then lru_Add epoch assignments c else c)
             in Some (Inr assignments, pc \<lparr> client := answers, assignmentsCache := c \<rparr>))))"

text \<open>A cache holds no partial result when every value in it has both maps non-empty.\<close>

definition no_partial_result :: "lru_Cache \<Rightarrow> bool" where
  "no_partial_result c =
    list_all (\<lambda>e. ProposerAssignments (snd e) \<noteq> [] \<and> AttestorAssignments (snd e) \<noteq> []) c"

section \<open>Block normalizer: wire messages and canonical records\<close>

text \<open>
  The wire messages of \<open>ethpb\<close> with the fields that the parsers read; a selector carries
  a prefix for its message, since several messages have fields of the same name. The four
  signed block messages differ in their bodies only: one body type holds the fields of all
  four, and each parser reads the fields of its own revision. A sub-message that the code
  dereferences without a nil test is present; the sync aggregate and the execution
  payload, which the code tests, may be absent.
\<close>

datatype pb_Eth1Data =
  pb_Eth1Data (pb1_DepositRoot: bytes) (pb1_DepositCount: u64) (pb1_BlockHash: bytes)

datatype pb_BeaconBlockHeader =
  pb_BeaconBlockHeader
    (pbh_Slot: u64) (pbh_ProposerIndex: u64) (pbh_ParentRoot: bytes) (pbh_StateRoot: bytes)
    (pbh_BodyRoot: bytes)

datatype pb_SignedBeaconBlockHeader =
  pb_SignedBeaconBlockHeader (pbsh_Header: pb_BeaconBlockHeader) (pbsh_Signature: bytes)

datatype pb_ProposerSlashing =
  pb_ProposerSlashing (Header_1: pb_SignedBeaconBlockHeader) (Header_2: pb_SignedBeaconBlockHeader)

datatype pb_Checkpoint = pb_Checkpoint (pbc_Epoch: u64) (pbc_Root: bytes)

datatype pb_AttestationData =
  pb_AttestationData
    (pbd_Slot: u64) (pbd_CommitteeIndex: u64) (pbd_BeaconBlockRoot: bytes)
    (pbd_Source: pb_Checkpoint) (pbd_Target: pb_Checkpoint)

datatype pb_IndexedAttestation =
  pb_IndexedAttestation
    (pbi_AttestingIndices: "u64 list") (pbi_Data: pb_AttestationData) (pbi_Signature: bytes)

datatype pb_AttesterSlashing =
  pb_AttesterSlashing (Attestation_1: pb_IndexedAttestation) (Attestation_2: pb_IndexedAttestation)

datatype pb_Attestation =
  pb_Attestation (pba_AggregationBits: bytes) (pba_Data: pb_AttestationData) (pba_Signature: bytes)

datatype pb_Deposit_Data =
  pb_Deposit_Data
    (pbdd_PublicKey: bytes) (pbdd_WithdrawalCredentials: bytes) (pbdd_Amount: u64)
    (pbdd_Signature: bytes)

datatype pb_Deposit = pb_Deposit (pbdp_Proof: "bytes list") (pbdp_Data: pb_Deposit_Data)

datatype pb_VoluntaryExit = pb_VoluntaryExit (pbe_Epoch: u64) (pbe_ValidatorIndex: u64)

datatype pb_SignedVoluntaryExit =
  pb_SignedVoluntaryExit (pbse_Exit: pb_VoluntaryExit) (pbse_Signature: bytes)

datatype pb_SyncAggregate =
  pb_SyncAggregate (pbs_SyncCommitteeBits: bytes) (pbs_SyncCommitteeSignature: bytes)

datatype pb_Withdrawal =
  pb_Withdrawal (pbw_Index: u64) (pbw_ValidatorIndex: u64) (pbw_Address: bytes) (pbw_Amount: u64)

record pb_ExecutionPayload =
  pbx_ParentHash :: bytes
  pbx_FeeRecipient :: bytes
  pbx_StateRoot :: bytes
  pbx_ReceiptsRoot :: bytes
  pbx_LogsBloom :: bytes
  pbx_PrevRandao :: bytes
  pbx_BlockNumber :: u64
  pbx_GasLimit :: u64
  pbx_GasUsed :: u64
  pbx_Timestamp :: u64
  pbx_ExtraData :: bytes
  pbx_BaseFeePerGas :: bytes
  pbx_BlockHash :: bytes
  pbx_Transactions :: "bytes list"
  pbx_Withdrawals :: "pb_Withdrawal list"

datatype pb_BLSToExecutionChange =
  pb_BLSToExecutionChange
    (pbb_ValidatorIndex: u64) (pbb_FromBlsPubkey: bytes) (pbb_ToExecutionAddress: bytes)

datatype pb_SignedBLSToExecutionChange =
  pb_SignedBLSToExecutionChange (pbsb_Message: pb_BLSToExecutionChange) (pbsb_Signature: bytes)

record pb_BeaconBlockBody =
  pby_RandaoReveal :: bytes
  pby_Eth1Data :: pb_Eth1Data
  pby_Graffiti :: bytes
  pby_ProposerSlashings :: "pb_ProposerSlashing list"
  pby_AttesterSlashings :: "pb_AttesterSlashing list"
  pby_Attestations :: "pb_Attestation list"
  pby_Deposits :: "pb_Deposit list"
  pby_VoluntaryExits :: "pb_SignedVoluntaryExit list"
  pby_SyncAggregate :: "pb_SyncAggregate option"
  pby_ExecutionPayload :: "pb_ExecutionPayload option"
  pby_BlsToExecutionChanges :: "pb_SignedBLSToExecutionChange list"

datatype pb_BeaconBlock =
  pb_BeaconBlock
    (pbk_Slot: u64) (pbk_ProposerIndex: u64) (pbk_ParentRoot: bytes) (pbk_StateRoot: bytes)
    (pbk_Body: pb_BeaconBlockBody)

datatype pb_SignedBeaconBlock =
  pb_SignedBeaconBlock (pbsk_Block: pb_BeaconBlock) (pbsk_Signature: bytes)

text \<open>The container's \<open>oneof\<close>: at most one variant is populated. Variants that
  \<open>parseRpcBlock\<close> does not ask for (the blinded blocks) are one more case.\<close>

datatype isBeaconBlockContainer_Block =
    Phase0Block pb_SignedBeaconBlock
  | AltairBlock pb_SignedBeaconBlock
  | BellatrixBlock pb_SignedBeaconBlock
  | CapellaBlock pb_SignedBeaconBlock
  | OtherBlock

datatype BeaconBlockContainer =
  BeaconBlockContainer
    (pbn_Block: "isBeaconBlockContainer_Block option") (pbn_BlockRoot: bytes) (pbn_Canonical: bool)

fun GetPhase0Block :: "BeaconBlockContainer \<Rightarrow> pb_SignedBeaconBlock option" where
  "GetPhase0Block (BeaconBlockContainer (Some (Phase0Block blk)) r c) = Some blk"
| "GetPhase0Block _ = None"

fun GetAltairBlock :: "BeaconBlockContainer \<Rightarrow> pb_SignedBeaconBlock option" where
  "GetAltairBlock (BeaconBlockContainer (Some (AltairBlock blk)) r c) = Some blk"
| "GetAltairBlock _ = None"

fun GetBellatrixBlock :: "BeaconBlockContainer \<Rightarrow> pb_SignedBeaconBlock option" where
  "GetBellatrixBlock (BeaconBlockContainer (Some (BellatrixBlock blk)) r c) = Some blk"
| "GetBellatrixBlock _ = None"

fun GetCapellaBlock :: "BeaconBlockContainer \<Rightarrow> pb_SignedBeaconBlock option" where
  "GetCapellaBlock (BeaconBlockContainer (Some (CapellaBlock blk)) r c) = Some blk"
| "GetCapellaBlock _ = None"

text \<open>
  The canonical records of package \<open>types\<close>, from the composite literals of the parsers;
  again each selector carries a prefix for its record. The two headers of a proposer
  slashing are \<open>types.Block\<close> values in which five fields are set.
\<close>

datatype Eth1Data = Eth1Data (e1_DepositRoot: bytes) (e1_DepositCount: u64) (e1_BlockHash: bytes)

datatype HeaderBlock =
  HeaderBlock
    (hb_Slot: u64) (hb_ParentRoot: bytes) (hb_StateRoot: bytes) (hb_Signature: bytes)
    (hb_BodyRoot: bytes)

datatype ProposerSlashing =
  ProposerSlashing (ps_ProposerIndex: u64) (Header1: HeaderBlock) (Header2: HeaderBlock)

datatype Checkpoint = Checkpoint (cp_Epoch: u64) (cp_Root: bytes)

datatype AttestationData =
  AttestationData
    (ad_Slot: u64) (ad_CommitteeIndex: u64) (ad_BeaconBlockRoot: bytes)
    (ad_Source: Checkpoint) (ad_Target: Checkpoint)

datatype IndexedAttestation =
  IndexedAttestation (ia_Data: AttestationData) (ia_Signature: bytes) (ia_AttestingIndices: "u64 list")

datatype AttesterSlashing =
  AttesterSlashing (Attestation1: IndexedAttestation) (Attestation2: IndexedAttestation)

datatype Attestation =
  Attestation
    (AggregationBits: bytes) (at_Data: AttestationData) (at_Signature: bytes) (Attesters: "u64 list")

datatype Deposit =
  Deposit
    (dp_Proof: "bytes list") (dp_PublicKey: bytes) (dp_WithdrawalCredentials: bytes)
    (dp_Amount: u64) (dp_Signature: bytes)

datatype VoluntaryExit =
  VoluntaryExit (ve_Epoch: u64) (ve_ValidatorIndex: u64) (ve_Signature: bytes)

text \<open>The helper \<open>syncCommitteeParticipation\<close> is not among the sources and returns a
  \<open>float64\<close>: its result is kept as the application of the function to its argument.\<close>

datatype float64 = syncCommitteeParticipation bytes

datatype SyncAggregate =
  SyncAggregate
    (SyncCommitteeBits: bytes) (SyncAggregateParticipation: float64) (SyncCommitteeSignature: bytes)

record types_Transaction =
  t_Raw :: bytes
  t_TxHash :: bytes
  t_AccountNonce :: u64
  t_Price :: bytes
  t_GasLimit :: u64
  t_Sender :: bytes
  t_Recipient :: bytes
  t_Amount :: bytes
  t_Payload :: bytes
  t_MaxPriorityFeePerGas :: u64
  t_MaxFeePerGas :: u64

datatype Withdrawals =
  Withdrawals
    (wd_Slot: u64) (wd_BlockRoot: bytes) (wd_Index: u64) (wd_ValidatorIndex: u64)
    (wd_Address: bytes) (wd_Amount: u64)

record ExecutionPayload =
  ep_ParentHash :: bytes
  ep_FeeRecipient :: bytes
  ep_StateRoot :: bytes
  ep_ReceiptsRoot :: bytes
  ep_LogsBloom :: bytes
  ep_Random :: bytes
  ep_BlockNumber :: u64
  ep_GasLimit :: u64
  ep_GasUsed :: u64
  ep_Timestamp :: u64
  ep_ExtraData :: bytes
  ep_BaseFeePerGas :: u64
  ep_BlockHash :: bytes
  ep_Transactions :: "types_Transaction list"
  ep_Withdrawals :: "Withdrawals list option"

datatype BLSToExecutionChange =
  BLSToExecutionChange (bls_Validatorindex: u64) (bls_BlsPubkey: bytes) (bls_Address: bytes)

datatype SignedBLSToExecutionChange =
  SignedBLSToExecutionChange (sb_Message: BLSToExecutionChange) (sb_Signature: bytes)

text \<open>\<open>types.Block\<close>. A nil pointer and a nil slice are \<open>None\<close>.\<close>

record Block =
  b_Status :: u64
  b_Proposer :: u64
  b_BlockRoot :: bytes
  b_Slot :: u64
  b_ParentRoot :: bytes
  b_StateRoot :: bytes
  b_Signature :: bytes
  b_RandaoReveal :: bytes
  b_Graffiti :: bytes
  b_Eth1Data :: Eth1Data
  b_BodyRoot :: bytes
  b_ProposerSlashings :: "ProposerSlashing list"
  b_AttesterSlashings :: "AttesterSlashing list"
  b_Attestations :: "Attestation list"
  b_Deposits :: "Deposit list"
  b_VoluntaryExits :: "VoluntaryExit list"
  b_SyncAggregate :: "SyncAggregate option"
  b_ExecutionPayload :: "ExecutionPayload option"
  b_Canonical :: bool
  b_SignedBLSToExecutionChange :: "SignedBLSToExecutionChange list option"

text \<open>An answer ends the page loop when it is an error, or a page with an empty next-page
  token or a total size of zero.\<close>

definition stops :: "fault + ValidatorAssignments \<Rightarrow> bool" where
  "stops answer =
    (case answer of Inl _ \<Rightarrow> True | Inr p \<Rightarrow> NextPageToken p = [] \<or> TotalSize p = 0)"

text \<open>A page with one committee assignment, an empty page, and a client with an empty
  cache in front of a node that gives the listed answers.\<close>

definition committee_page :: ValidatorAssignments where
  "committee_page = ValidatorAssignments [CommitteeAssignment [11, 12] 0 160 [161] 11] [] 1"

definition empty_page :: ValidatorAssignments where
  "empty_page = ValidatorAssignments [] [] 0"

definition fresh_client :: "(fault + ValidatorAssignments) list \<Rightarrow> PrysmClient" where
  "fresh_client answers = \<lparr> client = answers, assignmentsCache = [] \<rparr>"

definition committee_assignments :: EpochAssignments where
  "committee_assignments =
    \<lparr> ProposerAssignments = [(161, 11)],
      AttestorAssignments =
        [(FormatAttestorAssignmentKey 160 0 0, 11), (FormatAttestorAssignmentKey 160 0 1, 12)] \<rparr>"

definition no_assignments :: EpochAssignments where
  "no_assignments = \<lparr> ProposerAssignments = [], AttestorAssignments = [] \<rparr>"

section \<open>Block normalizer: the parsers\<close>

text \<open>
  \<open>bitfield.Bitlist\<close> of the library go-bitfield: the highest set bit of the last byte
  delimits the list. \<open>Len\<close> is the number of bits below the delimiter, and \<open>BitAt\<close> is false
  at and beyond it. \<open>Bitvector512.Bytes\<close> copies at most 64 bytes.
\<close>

fun bits_Len8 :: "nat \<Rightarrow> nat" where
  "bits_Len8 n = (if n = 0 then 0 else Suc (bits_Len8 (n div 2)))"

declare bits_Len8.simps [simp del]

definition Bitlist_Len :: "bytes \<Rightarrow> nat" where
  "Bitlist_Len b =
    (if length b = 0 then 0
     else (let msb = bits_Len8 (unat (last b))
           in if msb = 0 then 0 else 8 * (length b - 1) + msb - 1))"

definition Bitlist_BitAt :: "bytes \<Rightarrow> nat \<Rightarrow> bool" where
  "Bitlist_BitAt b idx =
    (if idx \<ge> Bitlist_Len b then False else bit (b ! (idx div 8)) (idx mod 8))"

definition Bitvector512_Bytes :: "bytes \<Rightarrow> bytes" where
  "Bitvector512_Bytes b = take 64 b"

text \<open>\<open>binary.LittleEndian.Uint64\<close> reads eight bytes and panics on a shorter slice;
  \<open>big.Int.Bytes\<close> is the big-endian absolute value, \<open>big.Int.Uint64\<close> its low 64 bits.\<close>

definition LittleEndian_Uint64 :: "bytes \<Rightarrow> fault + u64" where
  "LittleEndian_Uint64 b =
    (if length b < 8 then Inl (Panic ''runtime error: index out of range [7]'')
     else Inr (foldr (\<lambda>x acc. ucast x + acc * 256) (take 8 b) 0))"

fun nat_Bytes :: "nat \<Rightarrow> bytes" where
  "nat_Bytes n = (if n = 0 then [] else nat_Bytes (n div 256) @ [of_nat (n mod 256)])"

declare nat_Bytes.simps [simp del]

definition big_Bytes :: "int \<Rightarrow> bytes" where
  "big_Bytes i = nat_Bytes (nat \<bar>i\<bar>)"

definition big_Uint64 :: "int \<Rightarrow> u64" where
  "big_Uint64 i = of_nat (nat \<bar>i\<bar>)"

text \<open>A decoded \<open>gtypes.Transaction\<close> as the parsers read it through its accessors, and
  what the parsers take from outside this file: the configured number of slots per epoch,
  the decoding of a raw transaction and the sender recovery of the client's signer.\<close>

record gtypes_Transaction =
  g_Hash :: bytes
  g_Nonce :: u64
  g_GasPrice :: int
  g_Gas :: u64
  g_To :: "bytes option"
  g_Value :: int
  g_Data :: bytes
  g_GasTipCap :: int
  g_GasFeeCap :: int

record prysm_env =
  SlotsPerEpoch :: u64
  UnmarshalBinary :: "bytes \<Rightarrow> fault + gtypes_Transaction"
  signer_Sender :: "gtypes_Transaction \<Rightarrow> fault + bytes"

text \<open>The conversions that the four parsers repeat word for word.\<close>

definition new_HeaderBlock :: "pb_SignedBeaconBlockHeader \<Rightarrow> HeaderBlock" where
  "new_HeaderBlock h =
    HeaderBlock (pbh_Slot (pbsh_Header h)) (pbh_ParentRoot (pbsh_Header h))
      (pbh_StateRoot (pbsh_Header h)) (pbsh_Signature h) (pbh_BodyRoot (pbsh_Header h))"

definition new_ProposerSlashing :: "pb_ProposerSlashing \<Rightarrow> ProposerSlashing" where
  "new_ProposerSlashing proposerSlashing =
    ProposerSlashing (pbh_ProposerIndex (pbsh_Header (Header_1 proposerSlashing)))
      (new_HeaderBlock (Header_1 proposerSlashing)) (new_HeaderBlock (Header_2 proposerSlashing))"

definition new_Checkpoint :: "pb_Checkpoint \<Rightarrow> Checkpoint" where
  "new_Checkpoint c = Checkpoint (pbc_Epoch c) (pbc_Root c)"

definition new_AttestationData :: "pb_AttestationData \<Rightarrow> AttestationData" where
  "new_AttestationData d =
    AttestationData (pbd_Slot d) (pbd_CommitteeIndex d) (pbd_BeaconBlockRoot d)
      (new_Checkpoint (pbd_Source d)) (new_Checkpoint (pbd_Target d))"

definition new_IndexedAttestation :: "pb_IndexedAttestation \<Rightarrow> IndexedAttestation" where
  "new_IndexedAttestation a =
    IndexedAttestation (new_AttestationData (pbi_Data a)) (pbi_Signature a) (pbi_AttestingIndices a)"

definition new_AttesterSlashing :: "pb_AttesterSlashing \<Rightarrow> AttesterSlashing" where
  "new_AttesterSlashing attesterSlashing =
    AttesterSlashing (new_IndexedAttestation (Attestation_1 attesterSlashing))
      (new_IndexedAttestation (Attestation_2 attesterSlashing))"

definition new_Deposit :: "pb_Deposit \<Rightarrow> Deposit" where
  "new_Deposit deposit =
    Deposit (pbdp_Proof deposit) (pbdd_PublicKey (pbdp_Data deposit))
      (pbdd_WithdrawalCredentials (pbdp_Data deposit)) (pbdd_Amount (pbdp_Data deposit))
      (pbdd_Signature (pbdp_Data deposit))"

definition new_VoluntaryExit :: "pb_SignedVoluntaryExit \<Rightarrow> VoluntaryExit" where
  "new_VoluntaryExit voluntaryExit =
    VoluntaryExit (pbe_Epoch (pbse_Exit voluntaryExit)) (pbe_ValidatorIndex (pbse_Exit voluntaryExit))
      (pbse_Signature voluntaryExit)"

definition new_SyncAggregate :: "pb_SyncAggregate \<Rightarrow> SyncAggregate" where
  "new_SyncAggregate s =
    (let bits = Bitvector512_Bytes (pbs_SyncCommitteeBits s)
     in SyncAggregate bits (syncCommitteeParticipation bits) (pbs_SyncCommitteeSignature s))"

definition new_SignedBLSToExecutionChange ::
  "pb_SignedBLSToExecutionChange \<Rightarrow> SignedBLSToExecutionChange" where
  "new_SignedBLSToExecutionChange blsToExec =
    SignedBLSToExecutionChange
      (BLSToExecutionChange (pbb_ValidatorIndex (pbsb_Message blsToExec))
         (pbb_FromBlsPubkey (pbsb_Message blsToExec))
         (pbb_ToExecutionAddress (pbsb_Message blsToExec)))
      (pbsb_Signature blsToExec)"

text \<open>
  The attester loop, as at lines 727 to 737 and 1315 to 1325: for \<open>i\<close> from 0 below the
  length of the bitlist, a set bit appends the validator found under the key, or 0 when
  the key is not in the map.
\<close>

definition attester_step ::
  "EpochAssignments \<Rightarrow> u64 \<Rightarrow> u64 \<Rightarrow> bytes \<Rightarrow> u64 list \<Rightarrow> nat \<Rightarrow> u64 list" where
  "attester_step assignments slot committeeIndex aggregationBits attesters i =
    (if Bitlist_BitAt aggregationBits i
     then (let validator =
                 (case map_of (AttestorAssignments assignments)
                         (FormatAttestorAssignmentKey slot committeeIndex (of_nat i)) of
                    None \<Rightarrow> 0
                  | Some found \<Rightarrow> found)
           in attesters @ [validator])
     else attesters)"

definition attesters_of :: "EpochAssignments \<Rightarrow> u64 \<Rightarrow> u64 \<Rightarrow> bytes \<Rightarrow> u64 list" where
  "attesters_of assignments slot committeeIndex aggregationBits =
    foldl (attester_step assignments slot committeeIndex aggregationBits) []
      [0 ..< Bitlist_Len aggregationBits]"

text \<open>One attestation, as at lines 703 to 739: the division by the configured slots per
  epoch panics on zero, and an error of \<open>GetEpochAssignments\<close> ends the parser.\<close>

definition parse_attestation ::
  "prysm_env \<Rightarrow> PrysmClient \<Rightarrow> pb_Attestation \<Rightarrow> ((fault + Attestation) \<times> PrysmClient) option" where
  "parse_attestation env pc attestation =
    (let aData = new_AttestationData (pba_Data attestation);
         aggregationBits = pba_AggregationBits attestation
     in if SlotsPerEpoch env = 0
        then Some (Inl (Panic ''runtime error: integer divide by zero''), pc)
        else
          (case GetEpochAssignments pc (ad_Slot aData div SlotsPerEpoch env) of
             None \<Rightarrow> None
           | Some (Inl err, pc') \<Rightarrow>
               Some (Inl (Errorf (''error receiving epoch assignment for epoch ''
                            @ dec_nat (unat (ad_Slot aData div SlotsPerEpoch env)) @ '': '') err),
                     pc')
           | Some (Inr assignments, pc') \<Rightarrow>
               Some (Inr (Attestation aggregationBits aData (pba_Signature attestation)
                            (attesters_of assignments (ad_Slot aData) (ad_CommitteeIndex aData)
                               aggregationBits)),
                     pc')))"

fun parse_attestations ::
  "prysm_env \<Rightarrow> PrysmClient \<Rightarrow> pb_Attestation list
    \<Rightarrow> ((fault + Attestation list) \<times> PrysmClient) option" where
  "parse_attestations env pc [] = Some (Inr [], pc)"
| "parse_attestations env pc (attestation # rest) =
    (case parse_attestation env pc attestation of
       None \<Rightarrow> None
     | Some (Inl err, pc') \<Rightarrow> Some (Inl err, pc')
     | Some (Inr a, pc') \<Rightarrow>
        (case parse_attestations env pc' rest of
           None \<Rightarrow> None
         | Some (Inl err, pc'') \<Rightarrow> Some (Inl err, pc'')
         | Some (Inr as, pc'') \<Rightarrow> Some (Inr (a # as), pc'')))"

text \<open>The transactions of an execution payload, as at lines 945 to 974, from the index
  of the next raw transaction.\<close>

fun parse_transactions ::
  "prysm_env \<Rightarrow> bytes \<Rightarrow> nat \<Rightarrow> bytes list \<Rightarrow> fault + types_Transaction list" where
  "parse_transactions env blockHash i [] = Inr []"
| "parse_transactions env blockHash i (rawTx # rest) =
    (case UnmarshalBinary env rawTx of
       Inl err \<Rightarrow>
         Inl (Errorf (''error parsing tx '' @ dec_nat i @ '' block '' @ hex_of_bytes blockHash @ '': '')
                err)
     | Inr decTx \<Rightarrow>
        (case signer_Sender env decTx of
           Inl err \<Rightarrow>
             Inl (Errorf (''transaction with invalid sender (tx hash: '' @ hex_of_bytes (g_Hash decTx)
                            @ ''): '') err)
         | Inr sender \<Rightarrow>
            (let t = \<lparr> t_Raw = rawTx,
                       t_TxHash = g_Hash decTx,
                       t_AccountNonce = g_Nonce decTx,
                       t_Price = big_Bytes (g_GasPrice decTx),
                       t_GasLimit = g_Gas decTx,
                       t_Sender = sender,
                       t_Recipient = (case g_To decTx of Some v \<Rightarrow> v | None \<Rightarrow> []),
                       t_Amount = big_Bytes (g_Value decTx),
                       t_Payload = g_Data decTx,
                       t_MaxPriorityFeePerGas = big_Uint64 (g_GasTipCap decTx),
                       t_MaxFeePerGas = big_Uint64 (g_GasFeeCap decTx) \<rparr>
             in case parse_transactions env blockHash (Suc i) rest of
                  Inl err \<Rightarrow> Inl err
                | Inr txs \<Rightarrow> Inr (t # txs))))"

text \<open>The execution payload literal, lines 976 to 992 and 1199 to 1215, after the
  transactions.\<close>

definition new_ExecutionPayload ::
  "prysm_env \<Rightarrow> pb_ExecutionPayload \<Rightarrow> Withdrawals list option \<Rightarrow> fault + ExecutionPayload" where
  "new_ExecutionPayload env payload withdrawals =
    (case parse_transactions env (pbx_BlockHash payload) 0 (pbx_Transactions payload) of
       Inl err \<Rightarrow> Inl err
     | Inr txs \<Rightarrow>
        (case LittleEndian_Uint64 (pbx_BaseFeePerGas payload) of
           Inl err \<Rightarrow> Inl err
         | Inr baseFee \<Rightarrow>
            Inr \<lparr> ep_ParentHash = pbx_ParentHash payload,
                  ep_FeeRecipient = pbx_FeeRecipient payload,
                  ep_StateRoot = pbx_StateRoot payload,
                  ep_ReceiptsRoot = pbx_ReceiptsRoot payload,
                  ep_LogsBloom = pbx_LogsBloom payload,
                  ep_Random = pbx_PrevRandao payload,
                  ep_BlockNumber = pbx_BlockNumber payload,
                  ep_GasLimit = pbx_GasLimit payload,
                  ep_GasUsed = pbx_GasUsed payload,
                  ep_Timestamp = pbx_Timestamp payload,
                  ep_ExtraData = pbx_ExtraData payload,
                  ep_BaseFeePerGas = baseFee,
                  ep_BlockHash = pbx_BlockHash payload,
                  ep_Transactions = txs,
                  ep_Withdrawals = withdrawals \<rparr>))"

text \<open>The guard of lines 944 and 1155: the payload is decoded when it is present and its
  parent hash is not 32 zero bytes. The Bellatrix parser sets no withdrawals; the Capella
  parser builds one record for each withdrawal of the payload.\<close>

definition bellatrix_payload :: "prysm_env \<Rightarrow> pb_SignedBeaconBlock \<Rightarrow> fault + ExecutionPayload option" where
  "bellatrix_payload env blk =
    (case pby_ExecutionPayload (pbk_Body (pbsk_Block blk)) of
       None \<Rightarrow> Inr None
     | Some payload \<Rightarrow>
         if pbx_ParentHash payload = replicate 32 0 then Inr None
         else (case new_ExecutionPayload env payload None of
                 Inl err \<Rightarrow> Inl err
               | Inr p \<Rightarrow> Inr (Some p)))"

definition new_Withdrawals :: "BeaconBlockContainer \<Rightarrow> pb_SignedBeaconBlock \<Rightarrow> pb_Withdrawal \<Rightarrow> Withdrawals" where
  "new_Withdrawals block blk rawWithdrawal =
    Withdrawals (pbk_Slot (pbsk_Block blk)) (pbn_BlockRoot block) (pbw_Index rawWithdrawal)
      (pbw_ValidatorIndex rawWithdrawal) (pbw_Address rawWithdrawal) (pbw_Amount rawWithdrawal)"

definition capella_payload ::
  "prysm_env \<Rightarrow> BeaconBlockContainer \<Rightarrow> pb_SignedBeaconBlock \<Rightarrow> fault + ExecutionPayload option" where
  "capella_payload env block blk =
    (case pby_ExecutionPayload (pbk_Body (pbsk_Block blk)) of
       None \<Rightarrow> Inr None
     | Some payload \<Rightarrow>
         if pbx_ParentHash payload = replicate 32 0 then Inr None
         else (case new_ExecutionPayload env payload
                      (Some (map (new_Withdrawals block blk) (pbx_Withdrawals payload))) of
                 Inl err \<Rightarrow> Inl err
               | Inr p \<Rightarrow> Inr (Some p)))"

text \<open>The fields that all four parsers set in the same way, with the attestations that
  the attestation loop built; the fields that a literal leaves out are nil.\<close>

definition new_Block ::
  "BeaconBlockContainer \<Rightarrow> pb_SignedBeaconBlock \<Rightarrow> Attestation list \<Rightarrow> Block" where
  "new_Block block blk attestations =
    (let body = pbk_Body (pbsk_Block blk)
     in \<lparr> b_Status = 1,
          b_Proposer = pbk_ProposerIndex (pbsk_Block blk),
          b_BlockRoot = pbn_BlockRoot block,
          b_Slot = pbk_Slot (pbsk_Block blk),
          b_ParentRoot = pbk_ParentRoot (pbsk_Block blk),
          b_StateRoot = pbk_StateRoot (pbsk_Block blk),
          b_Signature = pbsk_Signature blk,
          b_RandaoReveal = pby_RandaoReveal body,
          b_Graffiti = pby_Graffiti body,
          b_Eth1Data = Eth1Data (pb1_DepositRoot (pby_Eth1Data body))
                         (pb1_DepositCount (pby_Eth1Data body)) (pb1_BlockHash (pby_Eth1Data body)),
          b_BodyRoot = [],
          b_ProposerSlashings = map new_ProposerSlashing (pby_ProposerSlashings body),
          b_AttesterSlashings = map new_AttesterSlashing (pby_AttesterSlashings body),
          b_Attestations = attestations,
          b_Deposits = map new_Deposit (pby_Deposits body),
          b_VoluntaryExits = map new_VoluntaryExit (pby_VoluntaryExits body),
          b_SyncAggregate = None,
          b_ExecutionPayload = None,
          b_Canonical = pbn_Canonical block,
          b_SignedBLSToExecutionChange = None \<rparr>)"

text \<open>\<open>parsePhase0Block\<close>, lines 615 to 759.\<close>

definition parsePhase0Block ::
  "prysm_env \<Rightarrow> PrysmClient \<Rightarrow> BeaconBlockContainer \<Rightarrow> ((fault + Block) \<times> PrysmClient) option" where
  "parsePhase0Block env pc block =
    (case GetPhase0Block block of
       None \<Rightarrow> Some (Inl (Err ''failed getting phase0 block''), pc)
     | Some blk \<Rightarrow>
        (case parse_attestations env pc (pby_Attestations (pbk_Body (pbsk_Block blk))) of
           None \<Rightarrow> None
         | Some (Inl err, pc') \<Rightarrow> Some (Inl err, pc')
         | Some (Inr attestations, pc') \<Rightarrow> Some (Inr (new_Block block blk attestations), pc')))"

text \<open>\<open>parseAltairBlock\<close>, lines 761 to 914.\<close>

definition parseAltairBlock ::
  "prysm_env \<Rightarrow> PrysmClient \<Rightarrow> BeaconBlockContainer \<Rightarrow> ((fault + Block) \<times> PrysmClient) option" where
  "parseAltairBlock env pc block =
    (case GetAltairBlock block of
       None \<Rightarrow> Some (Inl (Err ''failed getting altair block''), pc)
     | Some blk \<Rightarrow>
        (case parse_attestations env pc (pby_Attestations (pbk_Body (pbsk_Block blk))) of
           None \<Rightarrow> None
         | Some (Inl err, pc') \<Rightarrow> Some (Inl err, pc')
         | Some (Inr attestations, pc') \<Rightarrow>
             Some (Inr ((new_Block block blk attestations)
                          \<lparr> b_SyncAggregate :=
                               map_option new_SyncAggregate
                                 (pby_SyncAggregate (pbk_Body (pbsk_Block blk))) \<rparr>),
                   pc')))"

text \<open>\<open>parseBellatrixBlock\<close>, lines 916 to 1120: the execution payload comes first and
  may end the parser before any assignment is asked for.\<close>

definition parseBellatrixBlock ::
  "prysm_env \<Rightarrow> PrysmClient \<Rightarrow> BeaconBlockContainer \<Rightarrow> ((fault + Block) \<times> PrysmClient) option" where
  "parseBellatrixBlock env pc block =
    (case GetBellatrixBlock block of
       None \<Rightarrow> Some (Inl (Err ''failed getting bellatrix block''), pc)
     | Some blk \<Rightarrow>
        (case bellatrix_payload env blk of
           Inl err \<Rightarrow> Some (Inl err, pc)
         | Inr executionPayload \<Rightarrow>
            (case parse_attestations env pc (pby_Attestations (pbk_Body (pbsk_Block blk))) of
               None \<Rightarrow> None
             | Some (Inl err, pc') \<Rightarrow> Some (Inl err, pc')
             | Some (Inr attestations, pc') \<Rightarrow>
                 Some (Inr ((new_Block block blk attestations)
                              \<lparr> b_ExecutionPayload := executionPayload,
                                b_SyncAggregate :=
                                   map_option new_SyncAggregate
                                     (pby_SyncAggregate (pbk_Body (pbsk_Block blk))) \<rparr>),
                       pc'))))"

text \<open>\<open>parseCapellaBlock\<close>, lines 1122 to 1361.\<close>

definition parseCapellaBlock ::
  "prysm_env \<Rightarrow> PrysmClient \<Rightarrow> BeaconBlockContainer \<Rightarrow> ((fault + Block) \<times> PrysmClient) option" where
  "parseCapellaBlock env pc block =
    (case GetCapellaBlock block of
       None \<Rightarrow> Some (Inl (Err ''failed getting capella block''), pc)
     | Some blk \<Rightarrow>
        (case capella_payload env block blk of
           Inl err \<Rightarrow> Some (Inl err, pc)
         | Inr executionPayload \<Rightarrow>
            (case parse_attestations env pc (pby_Attestations (pbk_Body (pbsk_Block blk))) of
               None \<Rightarrow> None
             | Some (Inl err, pc') \<Rightarrow> Some (Inl err, pc')
             | Some (Inr attestations, pc') \<Rightarrow>
                 Some (Inr ((new_Block block blk attestations)
                              \<lparr> b_ExecutionPayload := executionPayload,
                                b_SyncAggregate :=
                                   map_option new_SyncAggregate
                                     (pby_SyncAggregate (pbk_Body (pbsk_Block blk))),
                                b_SignedBLSToExecutionChange :=
                                   Some (map new_SignedBLSToExecutionChange
                                           (pby_BlsToExecutionChanges (pbk_Body (pbsk_Block blk)))) \<rparr>),
                       pc'))))"

text \<open>\<open>parseRpcBlock\<close>, lines 595 to 613.\<close>

definition parseRpcBlock ::
  "prysm_env \<Rightarrow> PrysmClient \<Rightarrow> BeaconBlockContainer \<Rightarrow> ((fault + Block) \<times> PrysmClient) option" where
  "parseRpcBlock env pc block =
    (if GetPhase0Block block \<noteq> None then parsePhase0Block env pc block
     else if GetAltairBlock block \<noteq> None then parseAltairBlock env pc block
     else if GetBellatrixBlock block \<noteq> None then parseBellatrixBlock env pc block
     else if GetCapellaBlock block \<noteq> None then parseCapellaBlock env pc block
     else Some (Inl (Err ''block is neither phase0 nor altair nor bellatrix nor capella''), pc))"

text \<open>A configuration with 32 slots per epoch whose transaction decoder rejects every
  raw transaction; two attestations of slot 160 with the bits 0 and 1 set below the
  delimiter, of committee 0 (which \<open>committee_page\<close> assigns) and of committee 1 (which it
  does not); a block body, a signed block of slot 161, and an execution payload with one
  withdrawal and the given parent hash.\<close>

definition mainnet_env :: prysm_env where
  "mainnet_env =
    \<lparr> SlotsPerEpoch = 32,
      UnmarshalBinary = (\<lambda>rawTx. Inl (Err ''typed transaction too short'')),
      signer_Sender = (\<lambda>decTx. Inl (Err ''invalid transaction v, r, s values'')) \<rparr>"



definition example_body ::
  "pb_Attestation list \<Rightarrow> pb_ExecutionPayload option \<Rightarrow> pb_BeaconBlockBody" where
  "example_body attestations payload =
    \<lparr> pby_RandaoReveal = [0x01],
      pby_Eth1Data = pb_Eth1Data [0x02] 3 [0x04],
      pby_Graffiti = [0x05],
      pby_ProposerSlashings = [],
      pby_AttesterSlashings = [],
      pby_Attestations = attestations,
      pby_Deposits = [],
      pby_VoluntaryExits = [],
      pby_SyncAggregate = None,
      pby_ExecutionPayload = payload,
      pby_BlsToExecutionChanges = [] \<rparr>"

definition example_block ::
  "pb_Attestation list \<Rightarrow> pb_ExecutionPayload option \<Rightarrow> pb_SignedBeaconBlock" where
  "example_block attestations payload =
    pb_SignedBeaconBlock (pb_BeaconBlock 161 11 [0x06] [0x07] (example_body attestations payload))
      [0x08]"

definition example_payload :: "bytes \<Rightarrow> pb_ExecutionPayload" where
  "example_payload parentHash =
    \<lparr> pbx_ParentHash = parentHash,
      pbx_FeeRecipient = [0x0A],
      pbx_StateRoot = [0x0B],
      pbx_ReceiptsRoot = [0x0C],
      pbx_LogsBloom = [],
      pbx_PrevRandao = [0x0D],
      pbx_BlockNumber = 17000000,
      pbx_GasLimit = 30000000,
      pbx_GasUsed = 0,
      pbx_Timestamp = 1681338455,
      pbx_ExtraData = [],
      pbx_BaseFeePerGas = [0x07, 0, 0, 0, 0, 0, 0, 0],
      pbx_BlockHash = [0x0E],
      pbx_Transactions = [],
      pbx_Withdrawals = [pb_Withdrawal 1 11 [0xAA] 5, pb_Withdrawal 2 12 [0xBB] 6] \<rparr>"



definition premerge_bellatrix_container :: BeaconBlockContainer where
  "premerge_bellatrix_container =
    BeaconBlockContainer
      (Some (BellatrixBlock (example_block [] (Some (example_payload (replicate 32 0)))))) [0xB2] True"

definition bellatrix_container :: BeaconBlockContainer where
  "bellatrix_container =
    BeaconBlockContainer
      (Some (BellatrixBlock (example_block [] (Some (example_payload [0x09]))))) [0xB3] True"

definition capella_container :: BeaconBlockContainer where
  "capella_container =
    BeaconBlockContainer
      (Some (CapellaBlock (example_block [] (Some (example_payload [0x09]))))) [0xB4] True"

text \<open>A container in which no variant is populated, and the block that the Phase 0
  parser builds from \<open>phase0_container\<close>.\<close>

definition empty_container :: BeaconBlockContainer where
  "empty_container = BeaconBlockContainer None [0xB5] False"


text \<open>A withdrawal record carries the slot and the root of its block, next to the
  four fields of the wire withdrawal.\<close>

definition carries_slot_and_root ::
  "BeaconBlockContainer \<Rightarrow> pb_SignedBeaconBlock \<Rightarrow> pb_Withdrawal \<Rightarrow> Withdrawals \<Rightarrow> bool" where
  "carries_slot_and_root block blk rawWithdrawal withdraw =
    (wd_Slot withdraw = pbk_Slot (pbsk_Block blk)
     \<and> wd_BlockRoot withdraw = pbn_BlockRoot block
     \<and> wd_Index withdraw = pbw_Index rawWithdrawal
     \<and> wd_ValidatorIndex withdraw = pbw_ValidatorIndex rawWithdrawal
     \<and> wd_Address withdraw = pbw_Address rawWithdrawal
     \<and> wd_Amount withdraw = pbw_Amount rawWithdrawal)"

section \<open>What a deposit records of its log\<close>

text \<open>A log is decoded when its first topic is the signature of the deposit event.\<close>

definition is_deposit_log :: "eth1_env \<Rightarrow> Log \<Rightarrow> bool" where
  "is_deposit_log env l =
    (case log_Topics l of [] \<Rightarrow> False | topic0 # _ \<Rightarrow> topic0 = eth1DepositEventSignature env)"

text \<open>
  A deposit records a log when the log's payload unpacks, the deposit's validity flag says
  whether the BLS verification of the unpacked data under the domain returned no error,
  and every other decoded field is the one of the log and of the unpacked payload.
\<close>

definition recorded_from :: "eth1_env \<Rightarrow> bytes \<Rightarrow> Log \<Rightarrow> Eth1Deposit \<Rightarrow> bool" where
  "recorded_from env domain l d =
    (case UnpackDepositLogData env (log_Data l) of
       Inl _ \<Rightarrow> False
     | Inr (pubkey, withdrawalCredentials, amount', signature', merkletreeIndex) \<Rightarrow>
         ValidSignature d =
           (VerifyDepositSignature env
              (pubkey, withdrawalCredentials, FromBytes8 env amount', signature') domain = None)
         \<and> TxHash d = log_TxHash l
         \<and> TxIndex d = log_TxIndex l
         \<and> BlockNumber d = log_BlockNumber l
         \<and> PublicKey d = pubkey
         \<and> WithdrawalCredentials d = withdrawalCredentials
         \<and> Amount d = FromBytes8 env amount'
         \<and> Signature d = signature'
         \<and> MerkletreeIndex d = merkletreeIndex
         \<and> Removed d = log_Removed l)"

text \<open>A deposit with its validity flag cleared: what a deposit records apart from the
  outcome of the signature verification.\<close>

definition without_validity :: "Eth1Deposit \<Rightarrow> Eth1Deposit" where
  "without_validity d = d \<lparr> ValidSignature := False \<rparr>"

section \<open>Concrete inputs\<close>

text \<open>A deposit, the same deposit after a reorg retracted its log, and a second deposit
  of another key.\<close>

definition deposit_a :: Eth1Deposit where
  "deposit_a =
    \<lparr> TxHash = [0xAB, 0x01], TxInput = [0x22], TxIndex = 3, BlockNumber = 7, BlockTs = 1600000000,
      FromAddress = [0x0F], PublicKey = [0x01], WithdrawalCredentials = [0x02], Amount = 32000000000,
      Signature = [0x03], MerkletreeIndex = [0x00], Removed = False, ValidSignature = True \<rparr>"

definition deposit_a_removed :: Eth1Deposit where
  "deposit_a_removed = deposit_a \<lparr> BlockNumber := 8, Removed := True \<rparr>"

definition deposit_b :: Eth1Deposit where
  "deposit_b = deposit_a \<lparr> TxHash := [0xCD, 0x02], MerkletreeIndex := [0x01] \<rparr>"

definition empty_db :: WriterDb where
  "empty_db = \<lparr> committed = Map.empty, tx = None \<rparr>"

text \<open>A database that refuses the insert of \<open>deposit_b\<close> and accepts every other.\<close>

definition refusing_db :: WriterDb_env where
  "refusing_db =
    \<lparr> Begin_err = None,
      Prepare_err = None,
      Exec_err = (\<lambda>t d. if TxHash d = [0xCD, 0x02] then Some (Err ''pq: deadlock detected'') else None),
      Commit_err = None \<rparr>"

text \<open>A transport whose round trip succeeds while every sub-response carries an error.\<close>

definition failing_BatchCall :: "BatchElem list \<Rightarrow> fault option \<times> BatchElem list" where
  "failing_BatchCall elems =
    (None, map (\<lambda>e. e \<lparr> Error := Some (Err ''header not found'') \<rparr>) elems)"

text \<open>Three logs of one range: a deposit whose signature does not verify, a log of
  another event, and a deposit whose signature verifies; a transport that answers every
  sub-request; and an execution client with its libraries that serves them.\<close>

definition invalid_log :: Log where
  "invalid_log =
    \<lparr> log_Topics = [[0x64, 0x9B]], log_Data = [0xEE], log_BlockNumber = 7,
      log_TxHash = [0xAB, 0x01], log_TxIndex = 3, log_Removed = False \<rparr>"

definition valid_log :: Log where
  "valid_log =
    \<lparr> log_Topics = [[0x64, 0x9B]], log_Data = [0x11], log_BlockNumber = 9,
      log_TxHash = [0xCD, 0x02], log_TxIndex = 0, log_Removed = False \<rparr>"

definition other_log :: Log where
  "other_log =
    \<lparr> log_Topics = [[0x00]], log_Data = [], log_BlockNumber = 8,
      log_TxHash = [0xEF, 0x03], log_TxIndex = 1, log_Removed = False \<rparr>"

definition answering_BatchCall :: "BatchElem list \<Rightarrow> fault option \<times> BatchElem list" where
  "answering_BatchCall elems =
    (None, map (\<lambda>e. e \<lparr> Result :=
                  (case Result e of
                     HeaderResult _ \<Rightarrow> HeaderResult (Header 1600000000)
                   | TransactionResult _ \<Rightarrow> TransactionResult (Transaction [0x22] (Some 1) [])) \<rparr>) elems)"

definition example_eth1 :: eth1_env where
  "example_eth1 =
    \<lparr> FilterLogs = (\<lambda>fromBlock toBlock. Inr [invalid_log, other_log, valid_log]),
      BatchCall = answering_BatchCall,
      GenesisForkVersion = ''0x00000000'',
      ConfigName = ''mainnet'',
      DomainDeposit = [0x03, 0x00, 0x00, 0x00],
      ZeroHash = [],
      eth1DepositEventSignature = [0x64, 0x9B],
      DecodeString = (\<lambda>s. Inr [0x00, 0x00, 0x00, 0x00]),
      ComputeDomain = (\<lambda>domainType forkVersion root. Inr (domainType @ forkVersion)),
      UnpackDepositLogData = (\<lambda>data. Inr ([0x01], [0x02], [0x20], data, [0x00])),
      VerifyDepositSignature =
        (\<lambda>deposit_data domain.
           if snd (snd (snd deposit_data)) = [0x11] then None else Some (Err ''could not verify'')),
      FromBytes8 = (\<lambda>b. 32000000000),
      Sender = (\<lambda>chainID t. Inr [0x0F]) \<rparr>"

definition overloaded_eth1 :: eth1_env where
  "overloaded_eth1 =
    example_eth1 \<lparr> FilterLogs := (\<lambda>fromBlock toBlock. Inl (Err ''query returned more than 10000 results'')) \<rparr>"

definition unreachable_eth1 :: eth1_env where
  "unreachable_eth1 =
    example_eth1 \<lparr> FilterLogs := (\<lambda>fromBlock toBlock. Inl (Err ''connection refused'')) \<rparr>"

definition exporter_world :: "eth1_env \<Rightarrow> exporter_env" where
  "exporter_world w =
    \<lparr> db_Get = Inr 500, HeaderByNumber = Inr 2000, eth1DepositContractFirstBlock = 100,
      first_fetch = w, second_fetch = w, save_env = refusing_db \<rparr>"

definition example_deposits :: "Eth1Deposit list" where
  "example_deposits =
    [\<lparr> TxHash = [0xAB, 0x01], TxInput = [0x22], TxIndex = 3, BlockNumber = 7, BlockTs = 1600000000,
       FromAddress = [0x0F], PublicKey = [0x01], WithdrawalCredentials = [0x02], Amount = 32000000000,
       Signature = [0xEE], MerkletreeIndex = [0x00], Removed = False, ValidSignature = False \<rparr>,
     \<lparr> TxHash = [0xCD, 0x02], TxInput = [0x22], TxIndex = 0, BlockNumber = 9, BlockTs = 1600000000,
       FromAddress = [0x0F], PublicKey = [0x01], WithdrawalCredentials = [0x02], Amount = 32000000000,
       Signature = [0x11], MerkletreeIndex = [0x00], Removed = False, ValidSignature = True \<rparr>]"

section \<open>The scanned range: closed form\<close>

lemma exporter_range_closed_form:
  "exporter_range lp lf cfb head =
    (let from0 = max (lp + 1) (max (lf + 1) cfb);
         tb = (if 1000 < head - from0 then min (from0 + 1000) head else head);
         fb = (if tb - from0 < 100 \<and> 100 < tb then tb - 100 else from0)
     in (fb, tb))"
proof -
  define f1 where "f1 = (if lp + 1 < cfb then cfb else lp + 1)"
  define f2 where "f2 = (if f1 < lf + 1 then lf + 1 else f1)"
  have f2: "f2 = max (lp + 1) (max (lf + 1) cfb)"
    unfolding f2_def f1_def by (auto simp: max_def)
  define t1 where "t1 = (if 1000 < head - f2 then f2 + 1000 else head)"
  define t2 where "t2 = (if head < t1 then head else t1)"
  have t2: "t2 = (if 1000 < head - f2 then min (f2 + 1000) head else head)"
    unfolding t2_def t1_def by (auto simp: min_def)
  have "exporter_range lp lf cfb head =
     (if t2 - f2 < 100 \<and> 100 < t2 then t2 - 100 else f2, t2)"
    unfolding exporter_range_def eth1LookBack_def eth1MaxFetch_def Let_def
      t2_def t1_def f2_def f1_def by (rule refl)
  then show ?thesis
    unfolding Let_def t2 [symmetric] f2 [symmetric] .
qed

lemma exporter_range_catching_up: "exporter_range 500 500 100 2000 = (501, 1501)"
  by (simp add: exporter_range_closed_form)

lemma exporter_range_near_head: "exporter_range 548 500 100 550 = (450, 550)"
  by (simp add: exporter_range_closed_form)

text \<open>
  C2. In every iteration, with \<open>from0 = max (lastPersisted + 1, lastFetched + 1,
  contractFirstBlock)\<close> the start of the range before the look-back: the end \<open>toBlock\<close>
  never exceeds the head; it is \<open>from0 + 1000\<close>, capped at the head, when \<open>head - from0\<close>
  exceeds 1000, and the head otherwise; when \<open>toBlock - from0\<close> is below the look-back
  constant 100 and \<open>toBlock\<close> is above 100, \<open>fromBlock\<close> is moved back to \<open>toBlock - 100\<close>,
  and otherwise it is \<open>from0\<close>. All sums and differences are the source's \<open>uint64\<close> ones
  (so a \<open>from0\<close> beyond \<open>toBlock\<close> gives a wrapped difference, which is not below 100).
  In particular \<open>lastPersisted = 500, lastFetched = 500, contractFirstBlock = 100,
  head = 2000\<close> gives \<open>[501, 1501]\<close>, and with \<open>head = 550, lastPersisted = 548\<close> the range is
  \<open>[450, 550]\<close>.
\<close>

theorem exporter_range_spec:
  "(\<forall>lp lf cfb head fb tb from0.
      exporter_range lp lf cfb head = (fb, tb) \<and> from0 = max (lp + 1) (max (lf + 1) cfb) \<longrightarrow>
        tb \<le> head
      \<and> (1000 < head - from0 \<longrightarrow> tb = min (from0 + 1000) head)
      \<and> (\<not> 1000 < head - from0 \<longrightarrow> tb = head)
      \<and> (tb - from0 < 100 \<and> 100 < tb \<longrightarrow> fb = tb - 100)
      \<and> (\<not> (tb - from0 < 100 \<and> 100 < tb) \<longrightarrow> fb = from0))
   \<and> exporter_range 500 500 100 2000 = (501, 1501)
   \<and> exporter_range 548 500 100 550 = (450, 550)"
proof (intro conjI allI impI; (elim conjE)?)
  fix lp lf cfb head fb tb from0 :: u64
  assume r: "exporter_range lp lf cfb head = (fb, tb)"
    and f: "from0 = max (lp + 1) (max (lf + 1) cfb)"
  define T where "T = (if 1000 < head - from0 then min (from0 + 1000) head else head)"
  define F where "F = (if T - from0 < 100 \<and> 100 < T then T - 100 else from0)"
  have "exporter_range lp lf cfb head = (F, T)"
    unfolding exporter_range_closed_form Let_def F_def T_def f by (rule refl)
  with r have "(fb, tb) = (F, T)" by (rule trans [OF sym])
  then have fbF: "fb = F" and tbT: "tb = T" by simp_all
  have tb: "tb = (if 1000 < head - from0 then min (from0 + 1000) head else head)"
    using tbT unfolding T_def .
  have fb: "fb = (if tb - from0 < 100 \<and> 100 < tb then tb - 100 else from0)"
    using fbF unfolding F_def tbT .
  show "tb \<le> head" unfolding tb by simp
  { assume "1000 < head - from0" then show "tb = min (from0 + 1000) head" using tb by simp }
  { assume "\<not> 1000 < head - from0" then show "tb = head" using tb by simp }
  { assume "tb - from0 < 100" "100 < tb" then show "fb = tb - 100" using fb by simp }
  { assume n: "\<not> (tb - from0 < 100 \<and> 100 < tb)" show "fb = from0" unfolding fb if_not_P [OF n] .. }
next
  show "exporter_range 500 500 100 2000 = (501, 1501)" by (rule exporter_range_catching_up)
next
  show "exporter_range 548 500 100 550 = (450, 550)" by (rule exporter_range_near_head)
qed

theorem exporter_range_spec_witness:
  "exporter_range 500 500 100 2000 = (501, 1501)
   \<and> (1000::u64) < 2000 - max (500 + 1) (max (500 + 1) 100)
   \<and> (1501::u64) = min (max (500 + 1) (max (500 + 1) 100) + 1000) 2000
   \<and> exporter_range 548 500 100 550 = (450, 550)
   \<and> (550::u64) - max (548 + 1) (max (500 + 1) 100) < 100 \<and> (100::u64) < 550
   \<and> (450::u64) = 550 - 100"
proof -
  have a: "exporter_range 500 500 100 2000 = (501, 1501)"
    and b: "exporter_range 548 500 100 550 = (450, 550)"
    using exporter_range_spec by blast+
  have c: "(1000::u64) < 2000 - max (500 + 1) (max (500 + 1) 100)" by simp
  have d: "(550::u64) - max (548 + 1) (max (500 + 1) 100) < 100 \<and> (100::u64) < 550" by simp
  from exporter_range_spec a c
  have e: "(1501::u64) = min (max (500 + 1) (max (500 + 1) 100) + 1000) 2000" by blast
  from exporter_range_spec b d
  have f: "(450::u64) = 550 - 100" by blast
  from a b c d e f show ?thesis by blast
qed

section \<open>Deposit persistence: idempotent upsert\<close>

lemma DO_UPDATE_SET_idem: "DO_UPDATE_SET e (DO_UPDATE_SET e row) = DO_UPDATE_SET e row"
  by (simp add: DO_UPDATE_SET_def)

lemma DO_UPDATE_SET_same: "DO_UPDATE_SET e e = e"
  by (simp add: DO_UPDATE_SET_def)

lemma updated_columns_DO_UPDATE_SET: "updated_columns (DO_UPDATE_SET e row) = updated_columns e"
  by (simp add: DO_UPDATE_SET_def updated_columns_def)

lemma insertDepositStmt_idem:
  "insertDepositStmt d (insertDepositStmt d t) = insertDepositStmt d t"
  by (cases "t (TxHash d, MerkletreeIndex d)")
     (simp_all add: insertDepositStmt_def Let_def VALUES_def DO_UPDATE_SET_def)

lemma insertDepositStmt_funpow:
  "0 < n \<Longrightarrow> (insertDepositStmt d ^^ n) t = insertDepositStmt d t"
proof (induction n)
  case 0
  then show ?case by simp
next
  case (Suc n)
  show ?case
  proof (cases "n = 0")
    case True
    then show ?thesis by simp
  next
    case False
    with Suc.IH have "(insertDepositStmt d ^^ n) t = insertDepositStmt d t" by simp
    then show ?thesis by (simp add: insertDepositStmt_idem)
  qed
qed

lemma insertDepositStmt_at_key:
  "\<exists>row. insertDepositStmt d t (TxHash d, MerkletreeIndex d) = Some row
      \<and> updated_columns row = updated_columns (VALUES d)"
  by (cases "t (TxHash d, MerkletreeIndex d)")
     (simp_all add: insertDepositStmt_def Let_def VALUES_def DO_UPDATE_SET_def updated_columns_def)

lemma insertDepositStmt_other:
  "k \<noteq> (TxHash d, MerkletreeIndex d) \<Longrightarrow> insertDepositStmt d t k = t k"
  by (cases "t (TxHash d, MerkletreeIndex d)")
     (simp_all add: insertDepositStmt_def Let_def VALUES_def)

text \<open>
  C3. The upsert is idempotent per key: executing the statement \<open>n \<ge> 1\<close> times with the
  same payload leaves the same table, hence the same stored row, as executing it once; and
  executing it again for the same key \<open>(tx_hash, merkletree_index)\<close> with a changed payload
  leaves at that key a row whose updated columns are all those of the new payload.
\<close>

theorem upsert_idempotent_and_overwrites:
  "(0 < n \<longrightarrow> (insertDepositStmt d ^^ n) t = insertDepositStmt d t)
   \<and> (TxHash d' = TxHash d \<and> MerkletreeIndex d' = MerkletreeIndex d \<longrightarrow>
        (\<exists>row. insertDepositStmt d' (insertDepositStmt d t) (TxHash d, MerkletreeIndex d) = Some row
           \<and> updated_columns row = updated_columns (VALUES d')))"
proof (intro conjI impI)
  assume "0 < n"
  then show "(insertDepositStmt d ^^ n) t = insertDepositStmt d t"
    by (rule insertDepositStmt_funpow)
next
  assume "TxHash d' = TxHash d \<and> MerkletreeIndex d' = MerkletreeIndex d"
  then have k: "(TxHash d, MerkletreeIndex d) = (TxHash d', MerkletreeIndex d')" by simp
  show "\<exists>row. insertDepositStmt d' (insertDepositStmt d t) (TxHash d, MerkletreeIndex d) = Some row
           \<and> updated_columns row = updated_columns (VALUES d')"
    unfolding k by (rule insertDepositStmt_at_key)
qed

theorem upsert_idempotent_and_overwrites_witness:
  "(0::nat) < 3
   \<and> (insertDepositStmt deposit_a ^^ 3) Map.empty = insertDepositStmt deposit_a Map.empty
   \<and> TxHash deposit_a_removed = TxHash deposit_a
   \<and> MerkletreeIndex deposit_a_removed = MerkletreeIndex deposit_a
   \<and> (\<exists>row. insertDepositStmt deposit_a_removed (insertDepositStmt deposit_a Map.empty)
               (TxHash deposit_a, MerkletreeIndex deposit_a) = Some row
          \<and> updated_columns row = updated_columns (VALUES deposit_a_removed)
          \<and> removed row \<and> block_number row = 8)"
proof -
  have k: "TxHash deposit_a_removed = TxHash deposit_a
      \<and> MerkletreeIndex deposit_a_removed = MerkletreeIndex deposit_a"
    by (simp add: deposit_a_removed_def)
  from upsert_idempotent_and_overwrites [where n = 3 and d = deposit_a and t = Map.empty
      and d' = deposit_a_removed] k
  have a: "(insertDepositStmt deposit_a ^^ 3) Map.empty = insertDepositStmt deposit_a Map.empty"
    and b: "\<exists>row. insertDepositStmt deposit_a_removed (insertDepositStmt deposit_a Map.empty)
               (TxHash deposit_a, MerkletreeIndex deposit_a) = Some row
          \<and> updated_columns row = updated_columns (VALUES deposit_a_removed)"
    by simp_all
  from b obtain row where r: "insertDepositStmt deposit_a_removed (insertDepositStmt deposit_a Map.empty)
               (TxHash deposit_a, MerkletreeIndex deposit_a) = Some row"
    and u: "updated_columns row = updated_columns (VALUES deposit_a_removed)" by blast
  from u have "removed row \<and> block_number row = 8"
    by (simp add: updated_columns_def VALUES_def deposit_a_removed_def)
  with a k r u show ?thesis by simp
qed

section \<open>Deposit persistence: all or nothing\<close>

lemma exec_deposits_committed:
  "exec_deposits env ds db = (r, db') \<Longrightarrow> committed db' = committed db"
proof (induction ds arbitrary: db)
  case Nil
  then show ?case by simp
next
  case (Cons d ds)
  then show ?case
    by (auto simp: Exec_def split: option.splits prod.splits)
qed

lemma tx_update_same: "tx db = Some t \<Longrightarrow> db \<lparr> tx := Some t \<rparr> = db"
  by (cases db) simp

lemma exec_deposits_ok:
  "exec_deposits env ds db = (None, db') \<Longrightarrow> tx db = Some t \<Longrightarrow>
     db' = db \<lparr> tx := Some (fold insertDepositStmt ds t) \<rparr>"
proof (induction ds arbitrary: db t)
  case Nil
  then show ?case by (simp add: tx_update_same)
next
  case (Cons d ds)
  from Cons.prems have rest:
    "exec_deposits env ds (db \<lparr> tx := Some (insertDepositStmt d t) \<rparr>) = (None, db')"
    by (auto simp: Exec_def split: option.splits prod.splits)
  have "db' = db \<lparr> tx := Some (insertDepositStmt d t) \<rparr>
              \<lparr> tx := Some (fold insertDepositStmt ds (insertDepositStmt d t)) \<rparr>"
    by (rule Cons.IH [OF rest]) simp
  then show ?case by simp
qed

lemma saveEth1Deposits_error:
  "saveEth1Deposits env ds db = (Some e, db') \<Longrightarrow> tx db = None \<Longrightarrow> db' = db"
  apply (simp add: saveEth1Deposits_def Begin_def Prepare_def Commit_def Rollback_def
      split: option.splits prod.splits)
  apply (auto dest!: exec_deposits_committed)
  done

lemma saveEth1Deposits_ok:
  "saveEth1Deposits env ds db = (None, db') \<Longrightarrow> tx db = None \<Longrightarrow>
     db' = db \<lparr> committed := fold insertDepositStmt ds (committed db) \<rparr>"
  apply (simp add: saveEth1Deposits_def Begin_def Prepare_def Commit_def Rollback_def
      split: option.splits prod.splits)
  apply (auto dest!: exec_deposits_ok)
  done

lemma exec_deposits_prefix_ok:
  "\<forall>i < length pre. Exec_err env (fold insertDepositStmt (take i pre) t) (pre ! i) = None \<Longrightarrow>
   tx db = Some t \<Longrightarrow>
   exec_deposits env (pre @ rest) db
     = exec_deposits env rest (db \<lparr> tx := Some (fold insertDepositStmt pre t) \<rparr>)"
proof (induction pre arbitrary: db t)
  case Nil
  then show ?case by (simp add: tx_update_same)
next
  case (Cons d pre)
  from Cons.prems(1) have h: "Exec_err env t d = None" by fastforce
  have tl: "\<forall>i < length pre.
      Exec_err env (fold insertDepositStmt (take i pre) (insertDepositStmt d t)) (pre ! i) = None"
  proof (intro allI impI)
    fix i assume "i < length pre"
    then have "Suc i < length (d # pre)" by simp
    with Cons.prems(1)
    have "Exec_err env (fold insertDepositStmt (take (Suc i) (d # pre)) t) ((d # pre) ! Suc i) = None"
      by blast
    then show "Exec_err env (fold insertDepositStmt (take i pre) (insertDepositStmt d t)) (pre ! i) = None"
      by simp
  qed
  have step: "Exec env d db = (None, db \<lparr> tx := Some (insertDepositStmt d t) \<rparr>)"
    using h Cons.prems(2) by (simp add: Exec_def)
  have "exec_deposits env (pre @ rest) (db \<lparr> tx := Some (insertDepositStmt d t) \<rparr>)
      = exec_deposits env rest
          (db \<lparr> tx := Some (insertDepositStmt d t) \<rparr> \<lparr> tx := Some (fold insertDepositStmt pre (insertDepositStmt d t)) \<rparr>)"
    by (rule Cons.IH [OF tl]) simp
  then show ?case using step by simp
qed

text \<open>
  C4. \<open>saveEth1Deposits\<close> is atomic per batch. Called with no transaction open, it runs
  all the inserts of the batch inside one transaction, and its outcome is one of two:
  it returns an error and leaves the database as it was, or it returns nil and the
  committed table is the old one after all the upserts of the batch. If the inserts
  before some deposit succeed and the insert of that deposit fails, the function returns
  that error (wrapped with the transaction hash) and the database is unchanged.
\<close>

theorem saveEth1Deposits_all_or_nothing:
  assumes "tx db = None"
  shows "(case saveEth1Deposits env ds db of
            (Some e, db') \<Rightarrow> db' = db
          | (None, db') \<Rightarrow> db' = db \<lparr> committed := fold insertDepositStmt ds (committed db) \<rparr>)
       \<and> (Begin_err env = None \<and> Prepare_err env = None \<and> ds = pre @ d # post
           \<and> (\<forall>i < length pre.
                 Exec_err env (fold insertDepositStmt (take i pre) (committed db)) (pre ! i) = None)
           \<and> Exec_err env (fold insertDepositStmt pre (committed db)) d = Some e
          \<longrightarrow> saveEth1Deposits env ds db
                = (Some (Errorf (''error saving eth1-deposit to db: '' @ hex_of_bytes (TxHash d) @ '': '') e), db))"
proof (intro conjI impI)
  show "case saveEth1Deposits env ds db of
            (Some e, db') \<Rightarrow> db' = db
          | (None, db') \<Rightarrow> db' = db \<lparr> committed := fold insertDepositStmt ds (committed db) \<rparr>"
  proof (cases "saveEth1Deposits env ds db")
    case (Pair r db')
    then show ?thesis
      using saveEth1Deposits_error [OF _ assms] saveEth1Deposits_ok [OF _ assms]
      by (cases r) auto
  qed
next
  assume h: "Begin_err env = None \<and> Prepare_err env = None \<and> ds = pre @ d # post
           \<and> (\<forall>i < length pre.
                 Exec_err env (fold insertDepositStmt (take i pre) (committed db)) (pre ! i) = None)
           \<and> Exec_err env (fold insertDepositStmt pre (committed db)) d = Some e"
  let ?db1 = "db \<lparr> tx := Some (committed db) \<rparr>"
  let ?db2 = "?db1 \<lparr> tx := Some (fold insertDepositStmt pre (committed db)) \<rparr>"
  have "exec_deposits env (pre @ d # post) ?db1 = exec_deposits env (d # post) ?db2"
    using h by (intro exec_deposits_prefix_ok) simp_all
  also have "\<dots> = (Some (Errorf (''error saving eth1-deposit to db: '' @ hex_of_bytes (TxHash d) @ '': '') e), ?db2)"
    using h by (simp add: Exec_def)
  finally show "saveEth1Deposits env ds db
                = (Some (Errorf (''error saving eth1-deposit to db: '' @ hex_of_bytes (TxHash d) @ '': '') e), db)"
    using h assms by (simp add: saveEth1Deposits_def Begin_def Prepare_def Rollback_def)
qed

theorem saveEth1Deposits_all_or_nothing_witness:
  "tx empty_db = None
   \<and> Begin_err refusing_db = None \<and> Prepare_err refusing_db = None
   \<and> Exec_err refusing_db (committed empty_db) deposit_a = None
   \<and> Exec_err refusing_db (insertDepositStmt deposit_a (committed empty_db)) deposit_b
        = Some (Err ''pq: deadlock detected'')
   \<and> saveEth1Deposits refusing_db [deposit_a, deposit_b, deposit_a_removed] empty_db
        = (Some (Err ''error saving eth1-deposit to db: cd02: pq: deadlock detected''), empty_db)"
proof -
  have t: "tx empty_db = None" by (simp add: empty_db_def)
  have b: "Begin_err refusing_db = None \<and> Prepare_err refusing_db = None"
    by (simp add: refusing_db_def)
  have e1: "Exec_err refusing_db (committed empty_db) deposit_a = None"
    by (simp add: refusing_db_def deposit_a_def)
  have e2: "Exec_err refusing_db (insertDepositStmt deposit_a (committed empty_db)) deposit_b
        = Some (Err ''pq: deadlock detected'')"
    by (simp add: refusing_db_def deposit_b_def)
  have h: "hex_of_bytes (TxHash deposit_b) = ''cd02''"
    by (simp add: deposit_b_def hex_of_bytes_def hexdigit_def)
  from saveEth1Deposits_all_or_nothing [OF t, where env = refusing_db
      and ds = "[deposit_a, deposit_b, deposit_a_removed]" and pre = "[deposit_a]" and d = deposit_b
      and post = "[deposit_a_removed]" and e = "Err ''pq: deadlock detected''"] b e1 e2
  have "saveEth1Deposits refusing_db [deposit_a, deposit_b, deposit_a_removed] empty_db
        = (Some (Errorf (''error saving eth1-deposit to db: '' @ hex_of_bytes (TxHash deposit_b) @ '': '')
                   (Err ''pq: deadlock detected'')), empty_db)"
    by simp
  then have "saveEth1Deposits refusing_db [deposit_a, deposit_b, deposit_a_removed] empty_db
        = (Some (Err ''error saving eth1-deposit to db: cd02: pq: deadlock detected''), empty_db)"
    unfolding h by simp
  with t b e1 e2 show ?thesis by simp
qed

section \<open>Batched enrichment fetcher: errors\<close>

lemma add_block_errors:
  "foldl add_block st bs = (elems', headers', errors') \<Longrightarrow> set (snd (snd st)) \<subseteq> {None}
    \<Longrightarrow> set errors' \<subseteq> {None}"
proof (induction bs arbitrary: st)
  case Nil
  then show ?case by simp
next
  case (Cons b bs)
  have "set (snd (snd (add_block st b))) \<subseteq> {None}"
    using Cons.prems(2) by (cases st) (simp add: add_block_def Let_def)
  with Cons.IH [of "add_block st b"] Cons.prems(1) show ?case by simp
qed

lemma add_tx_errors:
  "foldl add_tx st ts = (elems', txs', errors') \<Longrightarrow> set (snd (snd st)) \<subseteq> {None}
    \<Longrightarrow> set errors' \<subseteq> {None}"
proof (induction ts arbitrary: st)
  case Nil
  then show ?case by simp
next
  case (Cons b bs)
  have "set (snd (snd (add_tx st b))) \<subseteq> {None}"
    using Cons.prems(2) by (cases st) (simp add: add_tx_def Let_def)
  with Cons.IH [of "add_tx st b"] Cons.prems(1) show ?case by simp
qed

lemma find_no_error: "set errors \<subseteq> {None} \<Longrightarrow> find (\<lambda>e. e \<noteq> None) errors = None"
  by (induction errors) auto

lemma add_block_length:
  "foldl add_block st bs = (elems', headers', errors') \<Longrightarrow> length elems' = length (fst st) + length bs"
proof (induction bs arbitrary: st)
  case Nil
  then show ?case by simp
next
  case (Cons b bs)
  have "length (fst (add_block st b)) = Suc (length (fst st))"
    by (cases st) (simp add: add_block_def Let_def)
  with Cons.IH [of "add_block st b"] Cons.prems show ?case by simp
qed

lemma add_tx_length:
  "foldl add_tx st ts = (elems', txs', errors') \<Longrightarrow> length elems' = length (fst st) + length ts"
proof (induction ts arbitrary: st)
  case Nil
  then show ?case by simp
next
  case (Cons b bs)
  have "length (fst (add_tx st b)) = Suc (length (fst st))"
    by (cases st) (simp add: add_tx_def Let_def)
  with Cons.IH [of "add_tx st b"] Cons.prems show ?case by simp
qed

text \<open>The transport's own error is what the fetch returns, and when the transport
  succeeds the fetch returns the two maps, whatever the \<open>Error\<close> fields of the elements hold:
  the list \<open>errors\<close> holds the nil values appended before the call.\<close>

lemma eth1Batch_transport_ok_never_fails:
  assumes "\<forall>elems. fst (bc elems) = None"
  shows "\<exists>headers txs. eth1BatchRequestHeadersAndTxs bc blocksToFetch txsToFetch = Inr (headers, txs)"
proof -
  obtain elems headers errors where a: "foldl add_block ([], Map.empty, []) blocksToFetch = (elems, headers, errors)"
    by (metis prod_cases3)
  obtain elems2 txs errors2 where b: "foldl add_tx (elems, Map.empty, errors) txsToFetch = (elems2, txs, errors2)"
    by (metis prod_cases3)
  have "set errors \<subseteq> {None}" using add_block_errors [OF a] by simp
  then have "set errors2 \<subseteq> {None}" using add_tx_errors [OF b] by simp
  then have f: "find (\<lambda>e. e \<noteq> None) errors2 = None" by (rule find_no_error)
  obtain elems' where c: "bc elems2 = (None, elems')" using assms by (metis prod.collapse)
  show ?thesis
    by (simp add: eth1BatchRequestHeadersAndTxs_def a b c f del: not_None_eq)
qed

lemma eth1Batch_transport_error:
  assumes "\<forall>elems. fst (bc elems) = Some ioErr" and "blocksToFetch \<noteq> [] \<or> txsToFetch \<noteq> []"
  shows "eth1BatchRequestHeadersAndTxs bc blocksToFetch txsToFetch = Inl ioErr"
proof -
  obtain elems headers errors where a: "foldl add_block ([], Map.empty, []) blocksToFetch = (elems, headers, errors)"
    by (metis prod_cases3)
  obtain elems2 txs errors2 where b: "foldl add_tx (elems, Map.empty, errors) txsToFetch = (elems2, txs, errors2)"
    by (metis prod_cases3)
  have "length elems2 = length blocksToFetch + length txsToFetch"
    using add_block_length [OF a] add_tx_length [OF b] by simp
  then have n: "length elems2 \<noteq> 0" using assms(2) by auto
  obtain elems' where c: "bc elems2 = (Some ioErr, elems')" using assms(1) by (metis prod.collapse)
  show ?thesis
    using n by (simp add: eth1BatchRequestHeadersAndTxs_def a b c)
qed

text \<open>
  C1. The batched fetch returns the transport's error when the batch call fails
  (\<open>eth1Batch_transport_error\<close>), but an error carried by a sub-response does not abort
  it: for the block list \<open>[1]\<close>, no transaction hash, and a transport that succeeds while
  the sub-response carries the error \<open>header not found\<close>, the fetch returns the maps, with
  the zero header stored for block 1, and not that error.
\<close>

theorem eth1Batch_sub_error_lost:
  "\<exists>headers txs. eth1BatchRequestHeadersAndTxs failing_BatchCall [1] [] = Inr (headers, txs)
      \<and> headers 1 = Some (Header 0) \<and>
     eth1BatchRequestHeadersAndTxs failing_BatchCall [1] [] \<noteq> Inl (Err ''header not found'')"
  by (simp add: eth1BatchRequestHeadersAndTxs_def add_block_def add_tx_def failing_BatchCall_def
      deref_header_def Let_def)

section \<open>Deposit log decoder: invalid signatures are recorded\<close>

lemma decode_logs_new:
  "decode_logs env domain logs (bs, ts, ds0) = Inr (bs', ts', ds') \<Longrightarrow>
    \<exists>new. ds' = ds0 @ new \<and>
      list_all2 (\<lambda>l d. case UnpackDepositLogData env (log_Data l) of
                   Inl _ \<Rightarrow> False
                 | Inr u \<Rightarrow> (case u of (pubkey, withdrawalCredentials, amount', signature', merkletreeIndex) \<Rightarrow>
                     d = new_deposit env l u
                          (VerifyDepositSignature env
                             (pubkey, withdrawalCredentials, FromBytes8 env amount', signature') domain = None)))
        (filter (is_deposit_log env) logs) new"
proof (induction logs arbitrary: bs ts ds0)
  case Nil
  then show ?case by simp
next
  case (Cons l logs)
  show ?case
  proof (cases "log_Topics l")
    case Nil
    with Cons.prems show ?thesis by simp
  next
    case (Cons topic0 rest)
    note tp = this
    show ?thesis
    proof (cases "topic0 = eth1DepositEventSignature env")
      case False
      with tp Cons.prems have "decode_logs env domain logs (bs, ts, ds0) = Inr (bs', ts', ds')"
        by simp
      from Cons.IH [OF this] False tp show ?thesis by (simp add: is_deposit_log_def)
    next
      case True
      show ?thesis
      proof (cases "UnpackDepositLogData env (log_Data l)")
        case (Inl e)
        with True tp Cons.prems show ?thesis by simp
      next
        case (Inr u)
        obtain pubkey wc am sg mi where u: "u = (pubkey, wc, am, sg, mi)" by (cases u) auto
        let ?d = "new_deposit env l u
                   (VerifyDepositSignature env (pubkey, wc, FromBytes8 env am, sg) domain = None)"
        from True tp Inr u Cons.prems
        have "decode_logs env domain logs
               (bs @ [log_BlockNumber l], ts @ [''0x'' @ hex_of_bytes (log_TxHash l)], ds0 @ [?d])
              = Inr (bs', ts', ds')"
          by (simp add: Let_def)
        from Cons.IH [OF this] obtain new where
          n: "ds' = (ds0 @ [?d]) @ new" and
          a: "list_all2 (\<lambda>l d. case UnpackDepositLogData env (log_Data l) of
                   Inl _ \<Rightarrow> False
                 | Inr u \<Rightarrow> (case u of (pubkey, withdrawalCredentials, amount', signature', merkletreeIndex) \<Rightarrow>
                     d = new_deposit env l u
                          (VerifyDepositSignature env
                             (pubkey, withdrawalCredentials, FromBytes8 env amount', signature') domain = None)))
        (filter (is_deposit_log env) logs) new" by blast
        have "ds' = ds0 @ (?d # new)" using n by simp
        moreover have "is_deposit_log env l" using True tp by (simp add: is_deposit_log_def)
        ultimately show ?thesis using a Inr u by (intro exI [of _ "?d # new"]) simp
      qed
    qed
  qed
qed

lemma enrich_deposit_fields:
  "enrich_deposit env headers txs d = Inr d' \<Longrightarrow>
     \<exists>ts inp fa. d' = d \<lparr> BlockTs := ts, TxInput := inp, FromAddress := fa \<rparr>"
  by (auto simp: enrich_deposit_def Let_def
      split: option.splits Transaction.splits sum.splits)

lemma enrich_deposits_fields:
  "enrich_deposits env headers txs ds = Inr ds' \<Longrightarrow>
     list_all2 (\<lambda>d d'. \<exists>ts inp fa. d' = d \<lparr> BlockTs := ts, TxInput := inp, FromAddress := fa \<rparr>) ds ds'"
proof (induction ds arbitrary: ds')
  case Nil
  then show ?case by simp
next
  case (Cons d ds)
  from Cons.prems obtain d' ds'' where
    a: "enrich_deposit env headers txs d = Inr d'" and
    b: "enrich_deposits env headers txs ds = Inr ds''" and
    c: "ds' = d' # ds''"
    by (auto split: sum.splits)
  from enrich_deposit_fields [OF a] Cons.IH [OF b] c show ?case by simp
qed

lemma list_all2_compose:
  "list_all2 P xs ys \<Longrightarrow> list_all2 Q ys zs \<Longrightarrow> (\<And>x y z. P x y \<Longrightarrow> Q y z \<Longrightarrow> R x z)
    \<Longrightarrow> list_all2 R xs zs"
proof (induction xs ys arbitrary: zs rule: list_all2_induct)
  case Nil
  then show ?case by simp
next
  case (Cons x xs y ys)
  from Cons.prems(1) obtain z zs' where z: "zs = z # zs'" "Q y z" "list_all2 Q ys zs'"
    by (cases zs) auto
  with Cons show ?case by simp
qed

lemma fetchEth1Deposits_recorded:
  assumes "fetchEth1Deposits env fromBlock toBlock = Inr depositsToSave"
  shows "\<exists>depositLogs domain.
           FilterLogs env fromBlock toBlock = Inr depositLogs
         \<and> deposit_domain env = Inr domain
         \<and> list_all2 (recorded_from env domain) (filter (is_deposit_log env) depositLogs) depositsToSave"
proof -
  from assms obtain depositLogs where l: "FilterLogs env fromBlock toBlock = Inr depositLogs"
    by (auto simp: fetchEth1Deposits_def split: sum.splits)
  from assms l obtain domain where d: "deposit_domain env = Inr domain"
    by (auto simp: fetchEth1Deposits_def split: sum.splits)
  from assms l d obtain bs ts ds where
    dec: "decode_logs env domain depositLogs ([], [], []) = Inr (bs, ts, ds)"
    by (auto simp: fetchEth1Deposits_def split: sum.splits)
  from assms l d dec obtain headers txs where
    en: "enrich_deposits env headers txs ds = Inr depositsToSave"
    by (auto simp: fetchEth1Deposits_def split: sum.splits)
  from decode_logs_new [OF dec]
  have a: "list_all2 (\<lambda>l d. case UnpackDepositLogData env (log_Data l) of
                   Inl _ \<Rightarrow> False
                 | Inr u \<Rightarrow> (case u of (pubkey, withdrawalCredentials, amount', signature', merkletreeIndex) \<Rightarrow>
                     d = new_deposit env l u
                          (VerifyDepositSignature env
                             (pubkey, withdrawalCredentials, FromBytes8 env amount', signature') domain = None)))
        (filter (is_deposit_log env) depositLogs) ds" by simp
  have "list_all2 (recorded_from env domain) (filter (is_deposit_log env) depositLogs) depositsToSave"
  proof (rule list_all2_compose [OF a enrich_deposits_fields [OF en]])
    fix x y z
    assume p: "case UnpackDepositLogData env (log_Data x) of
                   Inl _ \<Rightarrow> False
                 | Inr u \<Rightarrow> (case u of (pubkey, withdrawalCredentials, amount', signature', merkletreeIndex) \<Rightarrow>
                     y = new_deposit env x u
                          (VerifyDepositSignature env
                             (pubkey, withdrawalCredentials, FromBytes8 env amount', signature') domain = None))"
      and q: "\<exists>ts inp fa. z = y \<lparr> BlockTs := ts, TxInput := inp, FromAddress := fa \<rparr>"
    from p q show "recorded_from env domain x z"
      by (auto simp: recorded_from_def new_deposit_def split: sum.splits prod.splits)
  qed
  with l d show ?thesis by blast
qed

lemma fetchEth1Deposits_example:
  "fetchEth1Deposits example_eth1 0 100 = Inr example_deposits"
  by (simp add: fetchEth1Deposits_def example_eth1_def deposit_domain_def invalid_log_def valid_log_def
      other_log_def new_deposit_def eth1BatchRequestHeadersAndTxs_def add_block_def add_tx_def
      answering_BatchCall_def enrich_deposit_def deref_header_def deref_tx_def Let_def
      hex_of_bytes_def hexdigit_def example_deposits_def)

lemma without_validity_eqD:
  "without_validity d' = without_validity d \<Longrightarrow> d' = d \<lparr> ValidSignature := ValidSignature d' \<rparr>"
  by (cases d, cases d') (simp add: without_validity_def)

lemma without_validity_update [simp]:
  "without_validity (d \<lparr> ValidSignature := b \<rparr>) = without_validity d"
  by (simp add: without_validity_def)

lemma without_validity_new_deposit:
  "without_validity (new_deposit (env \<lparr> VerifyDepositSignature := verify \<rparr>) l u b')
     = without_validity (new_deposit env l u b)"
  by (cases u) (simp add: new_deposit_def without_validity_def)

lemma deposit_domain_verify:
  "deposit_domain (env \<lparr> VerifyDepositSignature := verify \<rparr>) = deposit_domain env"
  by (simp add: deposit_domain_def Let_def split: sum.splits)

lemma decode_logs_verify:
  "map without_validity ds' = map without_validity ds \<Longrightarrow>
   map_sum id (\<lambda>(b, t, d). (b, t, map without_validity d))
      (decode_logs (env \<lparr> VerifyDepositSignature := verify \<rparr>) domain logs (bs, ts, ds'))
   = map_sum id (\<lambda>(b, t, d). (b, t, map without_validity d))
      (decode_logs env domain logs (bs, ts, ds))"
proof (induction logs arbitrary: bs ts ds ds')
  case Nil
  then show ?case by simp
next
  case (Cons l logs)
  show ?case
  proof (cases "log_Topics l")
    case Nil
    then show ?thesis by simp
  next
    case (Cons topic0 rest)
    note tp = this
    show ?thesis
    proof (cases "topic0 = eth1DepositEventSignature env")
      case False
      with tp Cons.IH [OF Cons.prems] show ?thesis by simp
    next
      case True
      show ?thesis
      proof (cases "UnpackDepositLogData env (log_Data l)")
        case (Inl e)
        with True tp show ?thesis by simp
      next
        case (Inr u)
        obtain pubkey wc am sg mi where u: "u = (pubkey, wc, am, sg, mi)" by (cases u) auto
        let ?env' = "env \<lparr> VerifyDepositSignature := verify \<rparr>"
        let ?d' = "new_deposit ?env' l u (verify (pubkey, wc, FromBytes8 env am, sg) domain = None)"
        let ?d = "new_deposit env l u
                   (VerifyDepositSignature env (pubkey, wc, FromBytes8 env am, sg) domain = None)"
        have "map without_validity (ds' @ [?d']) = map without_validity (ds @ [?d])"
          using Cons.prems by (simp add: without_validity_new_deposit)
        from Cons.IH [OF this] True tp Inr u show ?thesis by (simp add: Let_def)
      qed
    qed
  qed
qed

lemma enrich_deposit_verify:
  assumes "without_validity d' = without_validity d"
  shows "map_sum id without_validity
           (enrich_deposit (env \<lparr> VerifyDepositSignature := verify \<rparr>) headers txs d')
         = map_sum id without_validity (enrich_deposit env headers txs d)"
proof -
  from without_validity_eqD [OF assms] obtain b where d': "d' = d \<lparr> ValidSignature := b \<rparr>"
    by blast
  show ?thesis
    unfolding d'
    by (simp add: enrich_deposit_def Let_def without_validity_def
        split: option.splits Transaction.splits sum.splits)
qed

lemma map_sum_Inl_D: "map_sum id f x = map_sum id g (Inl e) \<Longrightarrow> x = Inl e"
  by (cases x) simp_all

lemma map_sum_Inr_D: "map_sum id f x = map_sum id g (Inr y) \<Longrightarrow> \<exists>y'. x = Inr y' \<and> f y' = g y"
  by (cases x) simp_all

lemma enrich_deposits_verify:
  "map without_validity ds' = map without_validity ds \<Longrightarrow>
     map_sum id (map without_validity)
           (enrich_deposits (env \<lparr> VerifyDepositSignature := verify \<rparr>) headers txs ds')
     = map_sum id (map without_validity) (enrich_deposits env headers txs ds)"
proof (induction ds arbitrary: ds')
  case Nil
  then show ?case by simp
next
  case (Cons d ds)
  from Cons.prems obtain d' ds'' where s: "ds' = d' # ds''"
    and h: "without_validity d' = without_validity d"
    and t: "map without_validity ds'' = map without_validity ds"
    by (cases ds') auto
  let ?env' = "env \<lparr> VerifyDepositSignature := verify \<rparr>"
  note e1 = enrich_deposit_verify [OF h, where env = env and verify = verify
      and headers = headers and txs = txs]
  note e2 = Cons.IH [OF t]
  show ?case
  proof (cases "enrich_deposit env headers txs d")
    case (Inl e)
    from e1 [unfolded Inl] have "enrich_deposit ?env' headers txs d' = Inl e"
      by (rule map_sum_Inl_D)
    with Inl s show ?thesis by simp
  next
    case (Inr x)
    from map_sum_Inr_D [OF e1 [unfolded Inr]]
    obtain x' where x': "enrich_deposit ?env' headers txs d' = Inr x'"
      and xx: "without_validity x' = without_validity x" by blast
    note dx = Inr
    show ?thesis
    proof (cases "enrich_deposits env headers txs ds")
      case (Inl e)
      from e2 [unfolded Inl] have "enrich_deposits ?env' headers txs ds'' = Inl e"
        by (rule map_sum_Inl_D)
      with Inl dx x' s show ?thesis by simp
    next
      case (Inr xs)
      from map_sum_Inr_D [OF e2 [unfolded Inr]]
      obtain xs' where xs': "enrich_deposits ?env' headers txs ds'' = Inr xs'"
        and xxs: "map without_validity xs' = map without_validity xs" by blast
      from dx Inr x' xs' xx xxs s show ?thesis by simp
    qed
  qed
qed

lemma fetchEth1Deposits_verify:
  "map_sum id (map without_validity)
      (fetchEth1Deposits (env \<lparr> VerifyDepositSignature := verify \<rparr>) fromBlock toBlock)
   = map_sum id (map without_validity) (fetchEth1Deposits env fromBlock toBlock)"
proof (cases "FilterLogs env fromBlock toBlock")
  case (Inl e)
  then show ?thesis by (simp add: fetchEth1Deposits_def)
next
  case (Inr depositLogs)
  note fl = this
  let ?env' = "env \<lparr> VerifyDepositSignature := verify \<rparr>"
  show ?thesis
  proof (cases "deposit_domain env")
    case (Inl e)
    with fl show ?thesis by (simp add: fetchEth1Deposits_def deposit_domain_verify)
  next
    case (Inr domain)
    note dm = this
    have dl: "map_sum id (\<lambda>(b, t, d). (b, t, map without_validity d))
      (decode_logs ?env' domain depositLogs ([], [], []))
   = map_sum id (\<lambda>(b, t, d). (b, t, map without_validity d))
      (decode_logs env domain depositLogs ([], [], []))"
      by (rule decode_logs_verify) simp
    show ?thesis
    proof (cases "decode_logs env domain depositLogs ([], [], [])")
      case (Inl e)
      from dl [unfolded Inl] have "decode_logs ?env' domain depositLogs ([], [], []) = Inl e"
        by (rule map_sum_Inl_D)
      with Inl fl dm show ?thesis by (simp add: fetchEth1Deposits_def deposit_domain_verify)
    next
      case (Inr acc)
      obtain bs ts ds where acc: "acc = (bs, ts, ds)" by (cases acc)
      note dc = Inr
      from map_sum_Inr_D [OF dl [unfolded Inr]]
      obtain acc' where a': "decode_logs ?env' domain depositLogs ([], [], []) = Inr acc'"
        and aa: "(\<lambda>(b, t, d). (b, t, map without_validity d)) acc'
                  = (\<lambda>(b, t, d). (b, t, map without_validity d)) acc"
        by blast
      obtain bs' ts' ds' where acc': "acc' = (bs', ts', ds')" by (cases acc')
      from aa acc acc' have eq: "bs' = bs" "ts' = ts" "map without_validity ds' = map without_validity ds"
        by simp_all
      show ?thesis
      proof (cases "eth1BatchRequestHeadersAndTxs (BatchCall env) bs ts")
        case (Inl e)
        with dc acc a' acc' eq fl dm show ?thesis
          by (simp add: fetchEth1Deposits_def deposit_domain_verify)
      next
        case (Inr maps)
        obtain headers txs where maps: "maps = (headers, txs)" by (cases maps)
        from enrich_deposits_verify [OF eq(3), where env = env and verify = verify
            and headers = headers and txs = txs]
          dc Inr maps acc a' acc' eq fl dm
        show ?thesis
          by (simp add: fetchEth1Deposits_def deposit_domain_verify)
      qed
    qed
  qed
qed

lemma isl_map_sum: "isl (map_sum f g x) = isl x"
  by (cases x) simp_all

text \<open>
  C8. A deposit log whose signature fails the verification is not rejected. Whenever
  \<open>fetchEth1Deposits\<close> returns a batch, the batch holds exactly one deposit for each
  deposit log of the range, in the order of the logs; the deposit's \<open>ValidSignature\<close> is
  false when the BLS verification of that log's data returned an error and true when it
  returned none; and in both cases the transaction hash and index, the block number, the
  public key, the withdrawal credentials, the amount, the signature, the merkle-tree
  index and the removal flag are the decoded ones. And the verification decides nothing
  but the flag: with any other outcome of the signature verification in its place the
  fetch returns the same error or the same batch up to the validity flags, so it succeeds
  with a verification that fails exactly when it succeeds with one that passes.
\<close>

theorem fetchEth1Deposits_records_every_deposit:
  "(\<forall>depositsToSave.
      fetchEth1Deposits env fromBlock toBlock = Inr depositsToSave \<longrightarrow>
        (\<exists>depositLogs domain.
            FilterLogs env fromBlock toBlock = Inr depositLogs
          \<and> deposit_domain env = Inr domain
          \<and> list_all2 (recorded_from env domain) (filter (is_deposit_log env) depositLogs)
               depositsToSave))
   \<and> (\<forall>verify.
        map_sum id (map without_validity)
          (fetchEth1Deposits (env \<lparr> VerifyDepositSignature := verify \<rparr>) fromBlock toBlock)
        = map_sum id (map without_validity) (fetchEth1Deposits env fromBlock toBlock))
   \<and> (\<forall>verify.
        isl (fetchEth1Deposits (env \<lparr> VerifyDepositSignature := verify \<rparr>) fromBlock toBlock)
        = isl (fetchEth1Deposits env fromBlock toBlock))"
proof (intro conjI allI impI)
  fix depositsToSave
  assume "fetchEth1Deposits env fromBlock toBlock = Inr depositsToSave"
  then show "\<exists>depositLogs domain.
            FilterLogs env fromBlock toBlock = Inr depositLogs
          \<and> deposit_domain env = Inr domain
          \<and> list_all2 (recorded_from env domain) (filter (is_deposit_log env) depositLogs)
               depositsToSave"
    by (rule fetchEth1Deposits_recorded)
next
  fix verify
  show "map_sum id (map without_validity)
          (fetchEth1Deposits (env \<lparr> VerifyDepositSignature := verify \<rparr>) fromBlock toBlock)
        = map_sum id (map without_validity) (fetchEth1Deposits env fromBlock toBlock)"
    by (rule fetchEth1Deposits_verify)
next
  fix verify
  have "isl (map_sum id (map without_validity)
          (fetchEth1Deposits (env \<lparr> VerifyDepositSignature := verify \<rparr>) fromBlock toBlock))
        = isl (map_sum id (map without_validity) (fetchEth1Deposits env fromBlock toBlock))"
    by (simp only: fetchEth1Deposits_verify)
  then show "isl (fetchEth1Deposits (env \<lparr> VerifyDepositSignature := verify \<rparr>) fromBlock toBlock)
        = isl (fetchEth1Deposits env fromBlock toBlock)"
    by (simp only: isl_map_sum)
qed

theorem fetchEth1Deposits_records_every_deposit_witness:
  "fetchEth1Deposits example_eth1 0 100 = Inr example_deposits
   \<and> map ValidSignature example_deposits = [False, True]
   \<and> (\<exists>depositLogs domain.
         FilterLogs example_eth1 0 100 = Inr depositLogs
       \<and> deposit_domain example_eth1 = Inr domain
       \<and> list_all2 (recorded_from example_eth1 domain)
            (filter (is_deposit_log example_eth1) depositLogs) example_deposits)
   \<and> \<not> isl (fetchEth1Deposits
              (example_eth1 \<lparr> VerifyDepositSignature :=
                               (\<lambda>deposit_data domain. Some (Err ''could not verify'')) \<rparr>) 0 100)
   \<and> map_sum id (map without_validity)
        (fetchEth1Deposits
           (example_eth1 \<lparr> VerifyDepositSignature :=
                            (\<lambda>deposit_data domain. Some (Err ''could not verify'')) \<rparr>) 0 100)
       = Inr (map without_validity example_deposits)"
proof -
  note t = fetchEth1Deposits_records_every_deposit [where env = example_eth1
      and fromBlock = 0 and toBlock = 100]
  have v: "map ValidSignature example_deposits = [False, True]"
    by (simp add: example_deposits_def)
  from t fetchEth1Deposits_example
  have a: "\<exists>depositLogs domain.
         FilterLogs example_eth1 0 100 = Inr depositLogs
       \<and> deposit_domain example_eth1 = Inr domain
       \<and> list_all2 (recorded_from example_eth1 domain)
            (filter (is_deposit_log example_eth1) depositLogs) example_deposits"
    by blast
  from t have "isl (fetchEth1Deposits
              (example_eth1 \<lparr> VerifyDepositSignature :=
                               (\<lambda>deposit_data domain. Some (Err ''could not verify'')) \<rparr>) 0 100)
       = isl (fetchEth1Deposits example_eth1 0 100)"
    by blast
  then have b: "\<not> isl (fetchEth1Deposits
              (example_eth1 \<lparr> VerifyDepositSignature :=
                               (\<lambda>deposit_data domain. Some (Err ''could not verify'')) \<rparr>) 0 100)"
    by (simp add: fetchEth1Deposits_example)
  from t have "map_sum id (map without_validity)
        (fetchEth1Deposits
           (example_eth1 \<lparr> VerifyDepositSignature :=
                            (\<lambda>deposit_data domain. Some (Err ''could not verify'')) \<rparr>) 0 100)
       = map_sum id (map without_validity) (fetchEth1Deposits example_eth1 0 100)"
    by blast
  then have c: "map_sum id (map without_validity)
        (fetchEth1Deposits
           (example_eth1 \<lparr> VerifyDepositSignature :=
                            (\<lambda>deposit_data domain. Some (Err ''could not verify'')) \<rparr>) 0 100)
       = Inr (map without_validity example_deposits)"
    by (simp add: fetchEth1Deposits_example)
  from fetchEth1Deposits_example v a b c show ?thesis by blast
qed

section \<open>Deposit range scanner: the narrowing retry\<close>

lemma exporter_min: "(if (hi::u64) < a then hi else a) = min a hi"
  by (auto simp: min_def)

text \<open>
  C9. In an iteration whose first fetch of the range \<open>[fromBlock, toBlock]\<close> fails with an
  error: if the message matches \<open>query returned more than N results\<close> or
  \<open>413 Request Entity Too Large\<close>, the scanner fetches once more, with the same \<open>fromBlock\<close>
  and \<open>toBlock = fromBlock + 100\<close> capped at the chain head, and makes no third fetch; if
  that second fetch fails too, the iteration ends with a sleep of 5 seconds and
  \<open>lastFetchedBlock\<close> and the database unchanged. If the message matches neither pattern,
  the iteration ends after the single fetch, with the same sleep and nothing changed.
\<close>

theorem exporter_retries_once:
  assumes "db_Get env = Inr lastDepositBlock"
    and "HeaderByNumber env = Inr blockHeight"
    and "exporter_range lastDepositBlock lastFetchedBlock (eth1DepositContractFirstBlock env) blockHeight
          = (fromBlock, toBlock)"
    and "fetchEth1Deposits (first_fetch env) fromBlock toBlock = Inl (Err m)"
  shows "(infuraToMuchResultsErrorRE m \<or> gethRequestEntityTooLargeRE m \<longrightarrow>
            (\<exists>rest. snd (snd (exporter_iteration env lastFetchedBlock db))
                      = [Fetch fromBlock toBlock, Fetch fromBlock (min (fromBlock + 100) blockHeight)] @ rest
                  \<and> (\<forall>a b. Fetch a b \<notin> set rest))
          \<and> (\<forall>m'. fetchEth1Deposits (second_fetch env) fromBlock (min (fromBlock + 100) blockHeight)
                      = Inl (Err m') \<longrightarrow>
                 exporter_iteration env lastFetchedBlock db
                   = (lastFetchedBlock, db,
                      [Fetch fromBlock toBlock, Fetch fromBlock (min (fromBlock + 100) blockHeight), Sleep 5])))
       \<and> (\<not> (infuraToMuchResultsErrorRE m \<or> gethRequestEntityTooLargeRE m) \<longrightarrow>
            exporter_iteration env lastFetchedBlock db
              = (lastFetchedBlock, db, [Fetch fromBlock toBlock, Sleep 5]))"
proof (intro conjI impI allI)
  assume re: "infuraToMuchResultsErrorRE m \<or> gethRequestEntityTooLargeRE m"
  let ?to = "min (fromBlock + 100) blockHeight"
  have it: "exporter_iteration env lastFetchedBlock db =
      (case fetchEth1Deposits (second_fetch env) fromBlock ?to of
         Inr depositsToSave \<Rightarrow>
           exporter_save env lastFetchedBlock db blockHeight ?to depositsToSave
             [Fetch fromBlock toBlock, Fetch fromBlock ?to]
       | Inl (Panic m') \<Rightarrow> (lastFetchedBlock, db, [Fetch fromBlock toBlock, Fetch fromBlock ?to, Crash m'])
       | Inl (Err m') \<Rightarrow> (lastFetchedBlock, db, [Fetch fromBlock toBlock, Fetch fromBlock ?to, Sleep 5]))"
    using assms re
    by (simp add: exporter_iteration_def Let_def exporter_min split: sum.splits fault.splits)
  show "\<exists>rest. snd (snd (exporter_iteration env lastFetchedBlock db))
                      = [Fetch fromBlock toBlock, Fetch fromBlock ?to] @ rest
                  \<and> (\<forall>a b. Fetch a b \<notin> set rest)"
    unfolding it
    by (auto simp: exporter_save_def split: sum.splits fault.splits prod.splits option.splits)
  fix m'
  assume "fetchEth1Deposits (second_fetch env) fromBlock ?to = Inl (Err m')"
  then show "exporter_iteration env lastFetchedBlock db
                   = (lastFetchedBlock, db, [Fetch fromBlock toBlock, Fetch fromBlock ?to, Sleep 5])"
    unfolding it by simp
next
  assume "\<not> (infuraToMuchResultsErrorRE m \<or> gethRequestEntityTooLargeRE m)"
  then show "exporter_iteration env lastFetchedBlock db
              = (lastFetchedBlock, db, [Fetch fromBlock toBlock, Sleep 5])"
    using assms by (simp add: exporter_iteration_def)
qed

lemma overloaded_message:
  "infuraToMuchResultsErrorRE
     ''error getting logs from eth1-client: query returned more than 10000 results''"
  by (simp add: infuraToMuchResultsErrorRE_def infura_match_here_def has_prefix_def is_digit_def
      Let_def)

lemma unreachable_message:
  "\<not> (infuraToMuchResultsErrorRE ''error getting logs from eth1-client: connection refused''
      \<or> gethRequestEntityTooLargeRE ''error getting logs from eth1-client: connection refused'')"
  by (simp add: infuraToMuchResultsErrorRE_def infura_match_here_def has_prefix_def is_digit_def
      gethRequestEntityTooLargeRE_def Let_def)

lemma entity_too_large_message:
  "gethRequestEntityTooLargeRE ''error getting eth1-blocks: 413 Request Entity Too Large''"
  by (simp add: gethRequestEntityTooLargeRE_def has_prefix_def)

lemma overloaded_fetch:
  "fetchEth1Deposits overloaded_eth1 fromBlock toBlock
     = Inl (Err ''error getting logs from eth1-client: query returned more than 10000 results'')"
  by (simp add: fetchEth1Deposits_def overloaded_eth1_def)

lemma unreachable_fetch:
  "fetchEth1Deposits unreachable_eth1 fromBlock toBlock
     = Inl (Err ''error getting logs from eth1-client: connection refused'')"
  by (simp add: fetchEth1Deposits_def unreachable_eth1_def)

theorem exporter_retries_once_witness:
  "exporter_iteration (exporter_world overloaded_eth1) 500 empty_db
     = (500, empty_db, [Fetch 501 1501, Fetch 501 601, Sleep 5])
   \<and> exporter_iteration (exporter_world unreachable_eth1) 500 empty_db
     = (500, empty_db, [Fetch 501 1501, Sleep 5])"
proof -
  have m: "min ((501::u64) + 100) 2000 = 601" by simp
  have a: "exporter_iteration (exporter_world overloaded_eth1) 500 empty_db
     = (500, empty_db, [Fetch 501 1501, Fetch 501 (min (501 + 100) 2000), Sleep 5])"
    using exporter_retries_once [where env = "exporter_world overloaded_eth1"
        and lastDepositBlock = 500 and blockHeight = 2000 and lastFetchedBlock = 500
        and fromBlock = 501 and toBlock = 1501 and db = empty_db
        and m = "''error getting logs from eth1-client: query returned more than 10000 results''"]
      overloaded_message
    by (simp add: exporter_world_def exporter_range_catching_up overloaded_fetch)
  have b: "exporter_iteration (exporter_world unreachable_eth1) 500 empty_db
     = (500, empty_db, [Fetch 501 1501, Sleep 5])"
    using exporter_retries_once [where env = "exporter_world unreachable_eth1"
        and lastDepositBlock = 500 and blockHeight = 2000 and lastFetchedBlock = 500
        and fromBlock = 501 and toBlock = 1501 and db = empty_db
        and m = "''error getting logs from eth1-client: connection refused''"]
      unreachable_message
    by (simp add: exporter_world_def exporter_range_catching_up unreachable_fetch)
  from a b show ?thesis unfolding m by simp
qed

section \<open>Epoch assignment cache: what is cached and what is returned\<close>

lemma lru_Get_miss: "map_of c key = None \<Longrightarrow> lru_Get key c = (None, c)"
  by (simp add: lru_Get_def)

lemma lru_Get_hit:
  "map_of c key = Some v \<Longrightarrow> lru_Get key c = (Some v, (key, v) # filter (\<lambda>e. fst e \<noteq> key) c)"
  by (simp add: lru_Get_def)

lemma no_partial_result_filter: "no_partial_result c \<Longrightarrow> no_partial_result (filter P c)"
  by (induction c) (auto simp: no_partial_result_def)

lemma no_partial_result_take: "no_partial_result c \<Longrightarrow> no_partial_result (take n c)"
  unfolding no_partial_result_def list_all_iff by (auto dest: in_set_takeD)

lemma no_partial_result_member:
  "no_partial_result c \<Longrightarrow> map_of c key = Some v
    \<Longrightarrow> ProposerAssignments v \<noteq> [] \<and> AttestorAssignments v \<noteq> []"
  unfolding no_partial_result_def list_all_iff by (auto dest!: map_of_SomeD)

lemma no_partial_result_Cons:
  "no_partial_result ((k, v) # c)
    = (ProposerAssignments v \<noteq> [] \<and> AttestorAssignments v \<noteq> [] \<and> no_partial_result c)"
  by (simp add: no_partial_result_def)

lemma no_partial_result_lru_Add:
  "no_partial_result c \<Longrightarrow> ProposerAssignments v \<noteq> [] \<Longrightarrow> AttestorAssignments v \<noteq> []
    \<Longrightarrow> no_partial_result (lru_Add key v c)"
  unfolding lru_Add_def
  by (intro no_partial_result_take) (simp add: no_partial_result_Cons no_partial_result_filter)

lemma GetEpochAssignments_hit:
  "map_of (assignmentsCache pc) epoch = Some a \<Longrightarrow>
     GetEpochAssignments pc epoch
       = Some (Inr a, pc \<lparr> assignmentsCache := (epoch, a) # filter (\<lambda>e. fst e \<noteq> epoch) (assignmentsCache pc) \<rparr>)"
  by (simp add: GetEpochAssignments_def lru_Get_hit)

lemma GetEpochAssignments_miss:
  "map_of (assignmentsCache pc) epoch = None \<Longrightarrow>
     GetEpochAssignments pc epoch =
       (case list_assignments (client pc) [] of
           None \<Rightarrow> None
         | Some (Inl err, answers) \<Rightarrow> Some (Inl err, pc \<lparr> client := answers \<rparr>)
         | Some (Inr validatorAssignmentes, answers) \<Rightarrow>
            (let assignments =
                   foldl add_assignment
                     \<lparr> ProposerAssignments = [], AttestorAssignments = [] \<rparr> validatorAssignmentes
             in Some (Inr assignments,
                  pc \<lparr> client := answers,
                       assignmentsCache :=
                         (if AttestorAssignments assignments \<noteq> [] \<and> ProposerAssignments assignments \<noteq> []
                          then lru_Add epoch assignments (assignmentsCache pc)
                          else assignmentsCache pc) \<rparr>)))"
  by (simp add: GetEpochAssignments_def lru_Get_miss Let_def split: option.splits sum.splits prod.splits)

text \<open>
  C5. \<open>GetEpochAssignments\<close> commits a computed result into the cache only when both maps
  are non-empty. On a cache miss that returns the computed assignments, the cache
  afterwards is the old cache with the result added when both maps are non-empty, and the
  old cache unchanged otherwise, so that the epoch is still a miss; an error leaves the
  cache unchanged. Hence a cache without partial results stays so across every call, and
  what a cache hit returns has both maps non-empty.
\<close>

theorem GetEpochAssignments_caches_only_complete:
  assumes "GetEpochAssignments pc epoch = Some (r, pc')"
  shows "(\<forall>a. map_of (assignmentsCache pc) epoch = None \<and> r = Inr a \<longrightarrow>
            assignmentsCache pc' =
              (if ProposerAssignments a \<noteq> [] \<and> AttestorAssignments a \<noteq> []
               then lru_Add epoch a (assignmentsCache pc) else assignmentsCache pc)
          \<and> (ProposerAssignments a = [] \<or> AttestorAssignments a = []
               \<longrightarrow> map_of (assignmentsCache pc') epoch = None))
       \<and> (\<forall>e. r = Inl e \<longrightarrow> assignmentsCache pc' = assignmentsCache pc)
       \<and> (no_partial_result (assignmentsCache pc) \<longrightarrow>
             no_partial_result (assignmentsCache pc')
           \<and> (\<forall>a. map_of (assignmentsCache pc) epoch = Some a \<longrightarrow>
                  r = Inr a \<and> ProposerAssignments a \<noteq> [] \<and> AttestorAssignments a \<noteq> []))"
proof (cases "map_of (assignmentsCache pc) epoch")
  case (Some a)
  from assms GetEpochAssignments_hit [OF Some]
  have r: "r = Inr a"
    and c: "assignmentsCache pc' = (epoch, a) # filter (\<lambda>e. fst e \<noteq> epoch) (assignmentsCache pc)"
    by auto
  have "no_partial_result (assignmentsCache pc) \<Longrightarrow> no_partial_result (assignmentsCache pc')"
    unfolding c using no_partial_result_member [OF _ Some]
    by (simp add: no_partial_result_Cons no_partial_result_filter)
  with Some r show ?thesis
    using no_partial_result_member [OF _ Some] by auto
next
  case None
  note miss = this
  show ?thesis
  proof (cases "list_assignments (client pc) []")
    case None
    with assms miss show ?thesis by (simp add: GetEpochAssignments_miss)
  next
    case (Some res)
    obtain x answers where res: "res = (x, answers)" by (cases res)
    show ?thesis
    proof (cases x)
      case (Inl err)
      with assms miss Some res have "r = Inl err" "pc' = pc \<lparr> client := answers \<rparr>"
        by (simp_all add: GetEpochAssignments_miss)
      with miss show ?thesis by simp
    next
      case (Inr pages)
      define a where "a = foldl add_assignment
                     \<lparr> ProposerAssignments = [], AttestorAssignments = [] \<rparr> pages"
      from assms miss Some res Inr have r: "r = Inr a"
        and c: "assignmentsCache pc' =
              (if AttestorAssignments a \<noteq> [] \<and> ProposerAssignments a \<noteq> []
               then lru_Add epoch a (assignmentsCache pc) else assignmentsCache pc)"
        by (auto simp: GetEpochAssignments_miss Let_def a_def)
      have "no_partial_result (assignmentsCache pc) \<Longrightarrow> no_partial_result (assignmentsCache pc')"
        unfolding c by (simp add: no_partial_result_lru_Add)
      with miss r c show ?thesis by auto
    qed
  qed
qed

lemma list_assignments_returns:
  "list_ex stops answers \<Longrightarrow> list_assignments answers acc \<noteq> None"
  by (induction answers arbitrary: acc) (auto simp: stops_def Let_def split: sum.splits)

lemma list_assignments_error:
  "list_assignments answers acc = Some (Inl e, rest) \<Longrightarrow>
     \<exists>err. Inl err \<in> set answers
        \<and> e = Errorf ''error retrieving validator assignment response for caching: '' err"
  by (induction answers arbitrary: acc) (auto simp: Let_def split: sum.splits if_splits)

text \<open>
  C10. On a cache miss, \<open>GetEpochAssignments\<close> returns as soon as the node gives an answer
  that ends the page loop; whenever the page loop ends with the pages of assignments, it
  returns the assignments computed from them with a nil error, whether or not their maps
  are empty (and so whether or not they were cached); and when it returns an error, that
  error wraps the error of one of the node's answers to the listing call.
\<close>

theorem GetEpochAssignments_miss_returns_computed:
  assumes "map_of (assignmentsCache pc) epoch = None"
  shows "(list_ex stops (client pc) \<longrightarrow> GetEpochAssignments pc epoch \<noteq> None)
       \<and> (\<forall>pages answers. list_assignments (client pc) [] = Some (Inr pages, answers) \<longrightarrow>
            (\<exists>pc'. GetEpochAssignments pc epoch
                = Some (Inr (foldl add_assignment
                               \<lparr> ProposerAssignments = [], AttestorAssignments = [] \<rparr> pages), pc')))
       \<and> (\<forall>e pc'. GetEpochAssignments pc epoch = Some (Inl e, pc') \<longrightarrow>
            (\<exists>err. Inl err \<in> set (client pc)
               \<and> e = Errorf ''error retrieving validator assignment response for caching: '' err))"
proof (intro conjI allI impI)
  assume "list_ex stops (client pc)"
  from list_assignments_returns [OF this, of "[]"]
  show "GetEpochAssignments pc epoch \<noteq> None"
    by (auto simp: GetEpochAssignments_miss [OF assms] Let_def split: sum.splits)
next
  fix pages answers
  assume "list_assignments (client pc) [] = Some (Inr pages, answers)"
  then show "\<exists>pc'. GetEpochAssignments pc epoch
                = Some (Inr (foldl add_assignment
                               \<lparr> ProposerAssignments = [], AttestorAssignments = [] \<rparr> pages), pc')"
    by (simp add: GetEpochAssignments_miss [OF assms] Let_def)
next
  fix e pc'
  assume "GetEpochAssignments pc epoch = Some (Inl e, pc')"
  then obtain rest where "list_assignments (client pc) [] = Some (Inl e, rest)"
    by (auto simp: GetEpochAssignments_miss [OF assms] Let_def split: option.splits sum.splits)
  then show "\<exists>err. Inl err \<in> set (client pc)
               \<and> e = Errorf ''error retrieving validator assignment response for caching: '' err"
    by (rule list_assignments_error)
qed

lemma GetEpochAssignments_empty_page:
  "GetEpochAssignments (fresh_client [Inr empty_page, Inr committee_page]) 5
     = Some (Inr no_assignments, fresh_client [Inr committee_page])"
  by (simp add: GetEpochAssignments_def fresh_client_def empty_page_def lru_Get_def
      no_assignments_def)

lemma GetEpochAssignments_committee_page:
  "GetEpochAssignments (fresh_client [Inr committee_page]) 5
     = Some (Inr committee_assignments,
             \<lparr> client = [], assignmentsCache = [(5, committee_assignments)] \<rparr>)"
  by (simp add: GetEpochAssignments_def fresh_client_def committee_page_def lru_Get_def lru_Add_def
      add_assignment_def committee_assignments_def enumerate_eq_zip upt_rec Let_def)

lemma GetEpochAssignments_cached:
  "GetEpochAssignments \<lparr> client = [], assignmentsCache = [(5, committee_assignments)] \<rparr> 5
     = Some (Inr committee_assignments,
             \<lparr> client = [], assignmentsCache = [(5, committee_assignments)] \<rparr>)"
  by (simp add: GetEpochAssignments_def lru_Get_def)

lemma GetEpochAssignments_unavailable:
  "GetEpochAssignments (fresh_client [Inl (Err ''rpc error: code = Unavailable'')]) 5
     = Some (Inl (Err ''error retrieving validator assignment response for caching: rpc error: code = Unavailable''),
             fresh_client [])"
  by (simp add: GetEpochAssignments_def fresh_client_def lru_Get_def)

theorem GetEpochAssignments_caches_only_complete_witness:
  "GetEpochAssignments (fresh_client [Inr empty_page, Inr committee_page]) 5
     = Some (Inr no_assignments, fresh_client [Inr committee_page])
   \<and> map_of (assignmentsCache (fresh_client [Inr empty_page, Inr committee_page])) 5 = None
   \<and> ProposerAssignments no_assignments = []
   \<and> map_of (assignmentsCache (fresh_client [Inr committee_page])) 5 = None
   \<and> GetEpochAssignments (fresh_client [Inr committee_page]) 5
     = Some (Inr committee_assignments,
             \<lparr> client = [], assignmentsCache = [(5, committee_assignments)] \<rparr>)
   \<and> no_partial_result (assignmentsCache (fresh_client [Inr committee_page]))
   \<and> no_partial_result [(5, committee_assignments)]
   \<and> GetEpochAssignments \<lparr> client = [], assignmentsCache = [(5, committee_assignments)] \<rparr> 5
     = Some (Inr committee_assignments,
             \<lparr> client = [], assignmentsCache = [(5, committee_assignments)] \<rparr>)
   \<and> map_of [(5::u64, committee_assignments)] 5 = Some committee_assignments
   \<and> ProposerAssignments committee_assignments \<noteq> []
   \<and> AttestorAssignments committee_assignments \<noteq> []"
proof -
  have m: "map_of (assignmentsCache (fresh_client [Inr empty_page, Inr committee_page])) 5 = None"
    by (simp add: fresh_client_def)
  have p: "ProposerAssignments no_assignments = []" by (simp add: no_assignments_def)
  from GetEpochAssignments_caches_only_complete [OF GetEpochAssignments_empty_page] m p
  have a: "map_of (assignmentsCache (fresh_client [Inr committee_page])) 5 = None" by blast
  have n: "no_partial_result (assignmentsCache (fresh_client [Inr committee_page]))"
    by (simp add: fresh_client_def no_partial_result_def)
  from GetEpochAssignments_caches_only_complete [OF GetEpochAssignments_committee_page] n
  have b: "no_partial_result [(5, committee_assignments)]" by simp
  have h: "map_of [(5::u64, committee_assignments)] 5 = Some committee_assignments" by simp
  from GetEpochAssignments_caches_only_complete [OF GetEpochAssignments_cached] b h
  have c: "ProposerAssignments committee_assignments \<noteq> []
      \<and> AttestorAssignments committee_assignments \<noteq> []" by simp
  from GetEpochAssignments_empty_page GetEpochAssignments_committee_page
    GetEpochAssignments_cached m p a n b h c
  show ?thesis by simp
qed

theorem GetEpochAssignments_miss_returns_computed_witness:
  "map_of (assignmentsCache (fresh_client [Inr empty_page])) 5 = None
   \<and> list_ex stops (client (fresh_client [Inr empty_page]))
   \<and> GetEpochAssignments (fresh_client [Inr empty_page]) 5 \<noteq> None
   \<and> list_assignments (client (fresh_client [Inr empty_page])) [] = Some (Inr [], [])
   \<and> (\<exists>pc'. GetEpochAssignments (fresh_client [Inr empty_page]) 5 = Some (Inr no_assignments, pc'))
   \<and> map_of (assignmentsCache (fresh_client [Inl (Err ''rpc error: code = Unavailable'')])) 5 = None
   \<and> GetEpochAssignments (fresh_client [Inl (Err ''rpc error: code = Unavailable'')]) 5
       = Some (Inl (Err ''error retrieving validator assignment response for caching: rpc error: code = Unavailable''),
               fresh_client [])
   \<and> (\<exists>err. Inl err \<in> set (client (fresh_client [Inl (Err ''rpc error: code = Unavailable'')]))
        \<and> Err ''error retrieving validator assignment response for caching: rpc error: code = Unavailable''
            = Errorf ''error retrieving validator assignment response for caching: '' err)"
proof -
  have m1: "map_of (assignmentsCache (fresh_client [Inr empty_page])) 5 = None"
    by (simp add: fresh_client_def)
  have s: "list_ex stops (client (fresh_client [Inr empty_page]))"
    by (simp add: fresh_client_def stops_def empty_page_def)
  have l: "list_assignments (client (fresh_client [Inr empty_page])) [] = Some (Inr [], [])"
    by (simp add: fresh_client_def empty_page_def)
  note t1 = GetEpochAssignments_miss_returns_computed [OF m1]
  from t1 s have a: "GetEpochAssignments (fresh_client [Inr empty_page]) 5 \<noteq> None" by blast
  from t1 l have "\<exists>pc'. GetEpochAssignments (fresh_client [Inr empty_page]) 5
      = Some (Inr (foldl add_assignment
                     \<lparr> ProposerAssignments = [], AttestorAssignments = [] \<rparr> []), pc')"
    by blast
  then have b: "\<exists>pc'. GetEpochAssignments (fresh_client [Inr empty_page]) 5
      = Some (Inr no_assignments, pc')"
    by (simp add: no_assignments_def)
  have m2: "map_of (assignmentsCache (fresh_client [Inl (Err ''rpc error: code = Unavailable'')])) 5 = None"
    by (simp add: fresh_client_def)
  from GetEpochAssignments_miss_returns_computed [OF m2] GetEpochAssignments_unavailable
  have c: "\<exists>err. Inl err \<in> set (client (fresh_client [Inl (Err ''rpc error: code = Unavailable'')]))
        \<and> Err ''error retrieving validator assignment response for caching: rpc error: code = Unavailable''
            = Errorf ''error retrieving validator assignment response for caching: '' err"
    by blast
  from m1 s a l b m2 GetEpochAssignments_unavailable c show ?thesis by blast
qed

section \<open>Block normalizer: attesters\<close>



lemma Get_Bellatrix:
  "pbn_Block block = Some (BellatrixBlock blk) \<Longrightarrow>
     GetPhase0Block block = None \<and> GetAltairBlock block = None \<and> GetBellatrixBlock block = Some blk"
  by (cases block) simp

lemma Get_Capella:
  "pbn_Block block = Some (CapellaBlock blk) \<Longrightarrow>
     GetPhase0Block block = None \<and> GetAltairBlock block = None \<and> GetBellatrixBlock block = None
     \<and> GetCapellaBlock block = Some blk"
  by (cases block) simp

lemma Get_none:
  "pbn_Block block = None \<or> pbn_Block block = Some OtherBlock \<Longrightarrow>
     GetPhase0Block block = None \<and> GetAltairBlock block = None \<and> GetBellatrixBlock block = None
     \<and> GetCapellaBlock block = None"
  by (cases block) auto


lemma parseRpcBlock_Bellatrix:
  "pbn_Block block = Some (BellatrixBlock blk) \<Longrightarrow>
     parseRpcBlock env pc block = parseBellatrixBlock env pc block"
  by (simp add: parseRpcBlock_def Get_Bellatrix)

lemma parseRpcBlock_Capella:
  "pbn_Block block = Some (CapellaBlock blk) \<Longrightarrow>
     parseRpcBlock env pc block = parseCapellaBlock env pc block"
  by (simp add: parseRpcBlock_def Get_Capella)

lemma parseRpcBlock_none:
  "pbn_Block block = None \<or> pbn_Block block = Some OtherBlock \<Longrightarrow>
     parseRpcBlock env pc block
       = Some (Inl (Err ''block is neither phase0 nor altair nor bellatrix nor capella''), pc)"
  by (simp add: parseRpcBlock_def Get_none)



















section \<open>Block normalizer: dispatch, execution payload and withdrawals\<close>

lemma new_Block_bls: "b_SignedBLSToExecutionChange (new_Block block blk attestations) = None"
  by (simp add: new_Block_def Let_def)

lemma parseBellatrixBlock_ok:
  assumes "GetBellatrixBlock block = Some blk"
    and "parseBellatrixBlock env pc block = Some (Inr b, pc')"
  shows "\<exists>executionPayload. bellatrix_payload env blk = Inr executionPayload
           \<and> b_ExecutionPayload b = executionPayload
           \<and> b_SignedBLSToExecutionChange b = None"
proof -
  from assms obtain executionPayload attestations where
    p: "bellatrix_payload env blk = Inr executionPayload" and
    b: "b = (new_Block block blk attestations)
              \<lparr> b_ExecutionPayload := executionPayload,
                b_SyncAggregate :=
                   map_option new_SyncAggregate (pby_SyncAggregate (pbk_Body (pbsk_Block blk))) \<rparr>"
    by (auto simp: parseBellatrixBlock_def split: sum.splits option.splits prod.splits)
  show ?thesis using p unfolding b by (simp add: new_Block_bls)
qed

lemma bellatrix_payload_present:
  "bellatrix_payload env blk = Inr executionPayload \<Longrightarrow>
     (executionPayload \<noteq> None)
       = (\<exists>payload. pby_ExecutionPayload (pbk_Body (pbsk_Block blk)) = Some payload
             \<and> pbx_ParentHash payload \<noteq> replicate 32 0)"
  by (auto simp: bellatrix_payload_def split: option.splits if_splits sum.splits)

lemma parseCapellaBlock_ok:
  assumes "GetCapellaBlock block = Some blk"
    and "parseCapellaBlock env pc block = Some (Inr b, pc')"
  shows "capella_payload env block blk = Inr (b_ExecutionPayload b)"
proof -
  from assms obtain executionPayload attestations where
    p: "capella_payload env block blk = Inr executionPayload" and
    b: "b = (new_Block block blk attestations)
              \<lparr> b_ExecutionPayload := executionPayload,
                b_SyncAggregate :=
                   map_option new_SyncAggregate (pby_SyncAggregate (pbk_Body (pbsk_Block blk))),
                b_SignedBLSToExecutionChange :=
                   Some (map new_SignedBLSToExecutionChange
                           (pby_BlsToExecutionChanges (pbk_Body (pbsk_Block blk)))) \<rparr>"
    by (auto simp: parseCapellaBlock_def split: sum.splits option.splits prod.splits)
  show ?thesis using p unfolding b by simp
qed

lemma capella_payload_withdrawals:
  "capella_payload env block blk = Inr (Some executionPayload) \<Longrightarrow>
     \<exists>payload. pby_ExecutionPayload (pbk_Body (pbsk_Block blk)) = Some payload
        \<and> ep_Withdrawals executionPayload
             = Some (map (new_Withdrawals block blk) (pbx_Withdrawals payload))"
  by (auto simp: capella_payload_def new_ExecutionPayload_def
      split: option.splits if_splits sum.splits)

lemma withdrawals_carry:
  "list_all2 (carries_slot_and_root block blk) raws (map (new_Withdrawals block blk) raws)"
  by (induction raws) (simp_all add: carries_slot_and_root_def new_Withdrawals_def)

text \<open>
  C6, as the code has it. When only the third-revision (Bellatrix) variant is populated
  and the normalization returns a Block, the Block has a nil set of BLS-to-execution
  changes, and its execution payload is non-nil exactly when the wire payload is present
  and its parent hash is not 32 zero bytes. When a fourth-revision (Capella) container is
  normalized to a Block with an execution payload, the payload holds one withdrawal record
  for each wire withdrawal, in order, and each record carries the block's slot and block
  root. When none of the four variants is populated, \<open>parseRpcBlock\<close> fails with the error
  that the block is neither phase0 nor altair nor bellatrix nor capella.
\<close>

theorem parseRpcBlock_by_variant:
  "(\<forall>blk b pc'.
      pbn_Block block = Some (BellatrixBlock blk)
      \<and> parseRpcBlock env pc block = Some (Inr b, pc') \<longrightarrow>
        b_SignedBLSToExecutionChange b = None
      \<and> (b_ExecutionPayload b \<noteq> None)
           = (\<exists>payload. pby_ExecutionPayload (pbk_Body (pbsk_Block blk)) = Some payload
                 \<and> pbx_ParentHash payload \<noteq> replicate 32 0))
   \<and> (\<forall>blk b pc' executionPayload.
      pbn_Block block = Some (CapellaBlock blk)
      \<and> parseRpcBlock env pc block = Some (Inr b, pc')
      \<and> b_ExecutionPayload b = Some executionPayload \<longrightarrow>
        (\<exists>payload withdrawals.
            pby_ExecutionPayload (pbk_Body (pbsk_Block blk)) = Some payload
          \<and> ep_Withdrawals executionPayload = Some withdrawals
          \<and> list_all2 (carries_slot_and_root block blk) (pbx_Withdrawals payload) withdrawals))
   \<and> (pbn_Block block = None \<or> pbn_Block block = Some OtherBlock \<longrightarrow>
        parseRpcBlock env pc block
          = Some (Inl (Err ''block is neither phase0 nor altair nor bellatrix nor capella''), pc))"
proof (intro conjI allI impI)
  fix blk b pc'
  assume h: "pbn_Block block = Some (BellatrixBlock blk)
      \<and> parseRpcBlock env pc block = Some (Inr b, pc')"
  then have g: "GetBellatrixBlock block = Some blk" using Get_Bellatrix by blast
  from h have "parseBellatrixBlock env pc block = Some (Inr b, pc')"
    using parseRpcBlock_Bellatrix by metis
  from parseBellatrixBlock_ok [OF g this] obtain executionPayload where
    p: "bellatrix_payload env blk = Inr executionPayload"
    and e: "b_ExecutionPayload b = executionPayload"
    and s: "b_SignedBLSToExecutionChange b = None" by blast
  show "b_SignedBLSToExecutionChange b = None" by (rule s)
  show "(b_ExecutionPayload b \<noteq> None)
           = (\<exists>payload. pby_ExecutionPayload (pbk_Body (pbsk_Block blk)) = Some payload
                 \<and> pbx_ParentHash payload \<noteq> replicate 32 0)"
    unfolding e by (rule bellatrix_payload_present [OF p])
next
  fix blk b pc' executionPayload
  assume h: "pbn_Block block = Some (CapellaBlock blk)
      \<and> parseRpcBlock env pc block = Some (Inr b, pc')
      \<and> b_ExecutionPayload b = Some executionPayload"
  then have g: "GetCapellaBlock block = Some blk" using Get_Capella by blast
  from h have "parseCapellaBlock env pc block = Some (Inr b, pc')"
    using parseRpcBlock_Capella by metis
  from parseCapellaBlock_ok [OF g this] h
  have "capella_payload env block blk = Inr (Some executionPayload)" by simp
  from capella_payload_withdrawals [OF this] obtain payload where
    p: "pby_ExecutionPayload (pbk_Body (pbsk_Block blk)) = Some payload"
    and w: "ep_Withdrawals executionPayload
             = Some (map (new_Withdrawals block blk) (pbx_Withdrawals payload))" by blast
  from p w withdrawals_carry [of block blk "pbx_Withdrawals payload"]
  show "\<exists>payload withdrawals.
            pby_ExecutionPayload (pbk_Body (pbsk_Block blk)) = Some payload
          \<and> ep_Withdrawals executionPayload = Some withdrawals
          \<and> list_all2 (carries_slot_and_root block blk) (pbx_Withdrawals payload) withdrawals"
    by blast
next
  assume "pbn_Block block = None \<or> pbn_Block block = Some OtherBlock"
  then show "parseRpcBlock env pc block
          = Some (Inl (Err ''block is neither phase0 nor altair nor bellatrix nor capella''), pc)"
    by (rule parseRpcBlock_none)
qed

text \<open>
  C6 as stated fails: a container with only its Bellatrix variant populated, whose
  execution payload has a parent hash of 32 zero bytes (a block before the merge), is
  normalized to a Block with a nil execution payload.
\<close>

theorem premerge_bellatrix_block_has_no_payload:
  "pbn_Block premerge_bellatrix_container
     = Some (BellatrixBlock (example_block [] (Some (example_payload (replicate 32 0)))))
   \<and> (\<exists>b pc'. parseRpcBlock mainnet_env (fresh_client []) premerge_bellatrix_container
                  = Some (Inr b, pc')
              \<and> b_ExecutionPayload b = None)"
proof -
  have "parseRpcBlock mainnet_env (fresh_client []) premerge_bellatrix_container
     = Some (Inr (new_Block premerge_bellatrix_container
                    (example_block [] (Some (example_payload (replicate 32 0)))) []), fresh_client [])"
    by code_simp
  moreover have "b_ExecutionPayload (new_Block premerge_bellatrix_container
                    (example_block [] (Some (example_payload (replicate 32 0)))) []) = None"
    by (simp add: new_Block_def Let_def)
  ultimately show ?thesis by (simp add: premerge_bellatrix_container_def)
qed

lemma bellatrix_example:
  "case parseRpcBlock mainnet_env (fresh_client []) bellatrix_container of
     Some (Inr b, pc') \<Rightarrow> True
   | _ \<Rightarrow> False"
  by code_simp

lemma capella_example:
  "case parseRpcBlock mainnet_env (fresh_client []) capella_container of
     Some (Inr b, pc') \<Rightarrow>
       (case b_ExecutionPayload b of
          Some executionPayload \<Rightarrow>
            ep_Withdrawals executionPayload
              = Some [Withdrawals 161 [0xB4] 1 11 [0xAA] 5, Withdrawals 161 [0xB4] 2 12 [0xBB] 6]
        | None \<Rightarrow> False)
   | _ \<Rightarrow> False"
  by code_simp

theorem parseRpcBlock_by_variant_witness:
  "pbn_Block bellatrix_container
     = Some (BellatrixBlock (example_block [] (Some (example_payload [0x09]))))
   \<and> (\<exists>b pc'. parseRpcBlock mainnet_env (fresh_client []) bellatrix_container = Some (Inr b, pc')
         \<and> b_SignedBLSToExecutionChange b = None \<and> b_ExecutionPayload b \<noteq> None)
   \<and> pbn_Block capella_container
     = Some (CapellaBlock (example_block [] (Some (example_payload [0x09]))))
   \<and> (\<exists>b pc' executionPayload payload withdrawals.
         parseRpcBlock mainnet_env (fresh_client []) capella_container = Some (Inr b, pc')
       \<and> b_ExecutionPayload b = Some executionPayload
       \<and> pby_ExecutionPayload (pbk_Body (pbsk_Block (example_block [] (Some (example_payload [0x09])))))
            = Some payload
       \<and> ep_Withdrawals executionPayload = Some withdrawals
       \<and> withdrawals = [Withdrawals 161 [0xB4] 1 11 [0xAA] 5, Withdrawals 161 [0xB4] 2 12 [0xBB] 6]
       \<and> list_all2
            (carries_slot_and_root capella_container (example_block [] (Some (example_payload [0x09]))))
            (pbx_Withdrawals payload) withdrawals)
   \<and> pbn_Block empty_container = None
   \<and> parseRpcBlock mainnet_env (fresh_client []) empty_container
        = Some (Inl (Err ''block is neither phase0 nor altair nor bellatrix nor capella''),
                fresh_client [])"
proof -
  let ?blk = "example_block [] (Some (example_payload [0x09]))"
  have v1: "pbn_Block bellatrix_container = Some (BellatrixBlock ?blk)"
    by (simp add: bellatrix_container_def)
  from bellatrix_example obtain b1 pc1 where
    r1: "parseRpcBlock mainnet_env (fresh_client []) bellatrix_container = Some (Inr b1, pc1)"
    by (auto split: option.splits sum.splits prod.splits)
  have "[0x09] \<noteq> replicate 32 (0::byte)"
  proof
    assume "[0x09] = replicate 32 (0::byte)"
    then have "length [0x09::byte] = length (replicate 32 (0::byte))" by (rule arg_cong)
    then show False by simp
  qed
  then have "\<exists>payload. pby_ExecutionPayload (pbk_Body (pbsk_Block ?blk)) = Some payload
          \<and> pbx_ParentHash payload \<noteq> replicate 32 0"
    by (simp add: example_block_def example_body_def example_payload_def)
  with parseRpcBlock_by_variant [where block = bellatrix_container and env = mainnet_env
      and pc = "fresh_client []"] v1 r1
  have "b_SignedBLSToExecutionChange b1 = None \<and> b_ExecutionPayload b1 \<noteq> None" by blast
  with r1 have a: "\<exists>b pc'. parseRpcBlock mainnet_env (fresh_client []) bellatrix_container
        = Some (Inr b, pc')
         \<and> b_SignedBLSToExecutionChange b = None \<and> b_ExecutionPayload b \<noteq> None" by blast
  have v2: "pbn_Block capella_container = Some (CapellaBlock ?blk)"
    by (simp add: capella_container_def)
  from capella_example obtain b2 pc2 ep where
    r2: "parseRpcBlock mainnet_env (fresh_client []) capella_container = Some (Inr b2, pc2)"
    and e2: "b_ExecutionPayload b2 = Some ep"
    and w2: "ep_Withdrawals ep
              = Some [Withdrawals 161 [0xB4] 1 11 [0xAA] 5, Withdrawals 161 [0xB4] 2 12 [0xBB] 6]"
    by (auto split: option.splits sum.splits prod.splits)
  from parseRpcBlock_by_variant [where block = capella_container and env = mainnet_env
      and pc = "fresh_client []"] v2 r2 e2
  obtain payload withdrawals where
    "pby_ExecutionPayload (pbk_Body (pbsk_Block ?blk)) = Some payload"
    "ep_Withdrawals ep = Some withdrawals"
    "list_all2 (carries_slot_and_root capella_container ?blk) (pbx_Withdrawals payload) withdrawals"
    by blast
  with r2 e2 w2 have b: "\<exists>b pc' executionPayload payload withdrawals.
         parseRpcBlock mainnet_env (fresh_client []) capella_container = Some (Inr b, pc')
       \<and> b_ExecutionPayload b = Some executionPayload
       \<and> pby_ExecutionPayload (pbk_Body (pbsk_Block ?blk)) = Some payload
       \<and> ep_Withdrawals executionPayload = Some withdrawals
       \<and> withdrawals = [Withdrawals 161 [0xB4] 1 11 [0xAA] 5, Withdrawals 161 [0xB4] 2 12 [0xBB] 6]
       \<and> list_all2 (carries_slot_and_root capella_container ?blk) (pbx_Withdrawals payload) withdrawals"
    by auto
  have v3: "pbn_Block empty_container = None" by (simp add: empty_container_def)
  with parseRpcBlock_by_variant [where block = empty_container and env = mainnet_env
      and pc = "fresh_client []"]
  have c: "parseRpcBlock mainnet_env (fresh_client []) empty_container
        = Some (Inl (Err ''block is neither phase0 nor altair nor bellatrix nor capella''),
                fresh_client [])" by blast
  from v1 a v2 b v3 c show ?thesis by blast
qed

end
